theory Spec2Isabelle
  imports
    Main
    "HOL-Library.AList"
    "HOL-Library.FSet"
    "HOL-Library.Char_ord"
    "HOL-Library.List_Lexorder"
begin

section \<open>Configuration\<close>

text \<open>
  The entries of \<^verbatim>\<open>CONFIG\<close> in \<^verbatim>\<open>potbot.py\<close> that the progression engine reads.
  Python floats are modelled as exact rationals (\<^typ>\<open>rat\<close>): \<open>1.4\<close> is \<open>7/5\<close>,
  \<open>0.3\<close> is \<open>3/10\<close>, \<open>1.5\<close> is \<open>3/2\<close>. The rounding of IEEE doubles is not
  modelled. Python integers are \<^typ>\<open>int\<close>.
\<close>

definition admin_user_id :: int where "admin_user_id = 627710864081944580"
definition antispam_cooldown_sec :: rat where "antispam_cooldown_sec = 5"

definition base_message_xp :: rat where "base_message_xp = 2"

definition bonus_xp_chance :: rat where "bonus_xp_chance = 15 / 100"

definition bonus_xp_min :: int where "bonus_xp_min = 1"

definition bonus_xp_max :: int where "bonus_xp_max = 5"

definition voice_xp_per_minute :: rat where "voice_xp_per_minute = 3 / 10"

definition daily_bonus_multiplier :: rat where "daily_bonus_multiplier = 3 / 2"

definition streak_bonus_days :: int where "streak_bonus_days = 7"

definition streak_bonus_multiplier :: rat where "streak_bonus_multiplier = 2"

definition voice_weight_factor :: rat where "voice_weight_factor = 10"

definition base_xp_requirement :: rat where "base_xp_requirement = 15"

definition xp_multiplier :: rat where "xp_multiplier = 7 / 5"

definition prestige_threshold :: int where "prestige_threshold = 50"

section \<open>XP and level calculations\<close>

text \<open>
  \<^verbatim>\<open>calculate_level_requirement\<close>: \<open>0\<close> for level \<open>0\<close>, otherwise
  \<open>math.floor(base * multiplier ** (level - 1))\<close>. The power of a float to a Python
  integer is \<open>powi\<close>, which also covers a negative exponent.
\<close>

definition calculate_level_requirement :: "int \<Rightarrow> int" where
  "calculate_level_requirement level =
     (if level = 0 then 0
      else \<lfloor>base_xp_requirement * (xp_multiplier powi (level - 1))\<rfloor>)"

text \<open>
  The loop of \<^verbatim>\<open>calculate_level_from_xp\<close>:
  \<^verbatim>\<open>
    while left < right:
        mid = (left + right + 1) // 2
        req = base_req * ((multiplier ** mid - 1) / (multiplier - 1))
        if req <= xp: left = mid
        else: right = mid - 1
    return left
  \<close>
  as a recursive function of the loop variables. The distance \<open>right - left\<close>
  shrinks in every iteration.
\<close>

function level_search :: "rat \<Rightarrow> int \<Rightarrow> int \<Rightarrow> int" where
  "level_search xp left right =
     (if left < right then
        (let mid = (left + right + 1) div 2;
             req = base_xp_requirement * ((xp_multiplier powi mid - 1) / (xp_multiplier - 1))
         in if req \<le> xp then level_search xp mid right
            else level_search xp left (mid - 1))
      else left)"
  by pat_completeness auto

termination
  by (relation "measure (\<lambda>(xp, left, right). nat (right - left))") auto

declare level_search.simps [simp del]

definition calculate_level_from_xp :: "rat \<Rightarrow> int" where
  "calculate_level_from_xp xp = level_search xp 0 prestige_threshold"

text \<open>
  \<^verbatim>\<open>get_total_xp_for_level\<close>: the accumulating loop over \<open>range(1, level + 1)\<close>.
\<close>

definition get_total_xp_for_level :: "int \<Rightarrow> int" where
  "get_total_xp_for_level level =
     foldl (\<lambda>total i. total + calculate_level_requirement i) 0 [1..level]"

definition get_progress_in_level :: "rat \<Rightarrow> int \<Rightarrow> rat \<times> int" where
  "get_progress_in_level xp level =
     (let total_for_current = get_total_xp_for_level level;
          next_level_req = calculate_level_requirement (level + 1);
          progress = xp - of_int total_for_current
      in (progress, next_level_req))"

section \<open>Engine state\<close>

text \<open>
  A Python \<^verbatim>\<open>dict\<close> keeps its keys in insertion order, and \<^verbatim>\<open>get_sorted_leaderboard\<close>
  and \<^verbatim>\<open>save_data\<close> iterate over dictionaries, so a dictionary is an association list:
  \<open>d[k] = v\<close> is \<^const>\<open>AList.update\<close> (the value is replaced in place, a new key is
  appended), \<open>d.get(k, default)\<close> is \<open>dict_get\<close>, \<open>k in d\<close> is \<open>dict_contains\<close>
  and \<open>d.pop(k)\<close> removes the entry with \<^const>\<open>AList.delete\<close>. A Python \<^verbatim>\<open>set\<close>
  is a finite set.
\<close>

definition dict_get :: "('k \<times> 'v) list \<Rightarrow> 'k \<Rightarrow> 'v \<Rightarrow> 'v" where
  "dict_get d k dflt = (case map_of d k of None \<Rightarrow> dflt | Some v \<Rightarrow> v)"

definition dict_contains :: "'k \<Rightarrow> ('k \<times> 'v) list \<Rightarrow> bool" where
  "dict_contains k d = (case map_of d k of None \<Rightarrow> False | Some v \<Rightarrow> True)"

text \<open>
  \<^verbatim>\<open>BotState.daily_stats\<close>, a dictionary with the fixed keys \<open>date\<close>, \<open>messages\<close>,
  \<open>xp_gained\<close>, \<open>voice_time\<close>, \<open>active_users\<close>, \<open>level_ups\<close>, \<open>prestiges\<close> and
  \<open>new_members\<close>, and the summary of a day that \<^verbatim>\<open>reset_daily_stats\<close> stores in
  \<^verbatim>\<open>BotState.daily_history\<close> (there \<open>active_users\<close> is a count).
\<close>

record daily_stats_t =
  date :: string
  messages :: int
  xp_gained :: rat
  voice_time :: rat
  active_users :: "int fset"
  level_ups :: int
  prestiges :: int
  new_members :: int

record day_summary =
  hist_messages :: int
  hist_xp_gained :: rat
  hist_voice_time :: rat
  hist_active_users :: int
  hist_level_ups :: int
  hist_prestiges :: int
  hist_new_members :: int

text \<open>
  The class \<^verbatim>\<open>BotState\<close>, without the HTTP session. Timestamps (\<open>time.time()\<close>) are
  rationals, dates are the strings \<open>strftime('%Y-%m-%d')\<close> returns.
\<close>

record BotState =
  events_message :: string
  user_xp :: "(int \<times> rat) list"
  user_level :: "(int \<times> int) list"
  user_prestige :: "(int \<times> int) list"
  user_last_message :: "(int \<times> rat) list"
  user_daily_streak :: "(int \<times> int) list"
  user_last_daily :: "(int \<times> string) list"
  user_achievements :: "(int \<times> string fset) list"
  voice_start_times :: "(int \<times> rat) list"
  user_message_count :: "(int \<times> int) list"
  user_voice_time :: "(int \<times> rat) list"
  total_server_messages :: int
  locked_channels :: "int fset"
  daily_stats :: daily_stats_t
  daily_history :: "(string \<times> day_summary) list"

text \<open>The class attributes as the module initialises them.\<close>

definition initial_daily_stats :: daily_stats_t where
  "initial_daily_stats =
     \<lparr>date = [], messages = 0, xp_gained = 0, voice_time = 0, active_users = {||},
      level_ups = 0, prestiges = 0, new_members = 0\<rparr>"

definition initial_state :: BotState where
  "initial_state =
     \<lparr>events_message = ''No upcoming events.'',
      user_xp = [], user_level = [], user_prestige = [], user_last_message = [],
      user_daily_streak = [], user_last_daily = [], user_achievements = [],
      voice_start_times = [], user_message_count = [], user_voice_time = [],
      total_server_messages = 0, locked_channels = {||},
      daily_stats = initial_daily_stats, daily_history = []\<rparr>"

section \<open>Daily statistics\<close>

text \<open>
  The functions that read the clock take its reading as an argument: \<open>today\<close> is
  \<open>datetime.now().strftime('%Y-%m-%d')\<close>, \<open>yesterday\<close> the same for
  \<open>datetime.now() - timedelta(days=1)\<close>, \<open>current_time\<close> is \<open>time.time()\<close>.

  \<^verbatim>\<open>reset_daily_stats\<close>: a day other than today with a non-empty date is stored in the
  history, then the statistics are reset for today.
\<close>

definition reset_daily_stats :: "BotState \<Rightarrow> string \<Rightarrow> BotState" where
  "reset_daily_stats s today =
     (let ds = daily_stats s;
          s1 = (if date ds \<noteq> [] \<and> date ds \<noteq> today then
                  s\<lparr>daily_history :=
                      AList.update (date ds)
                        \<lparr>hist_messages = messages ds,
                         hist_xp_gained = xp_gained ds,
                         hist_voice_time = voice_time ds,
                         hist_active_users = int (fcard (active_users ds)),
                         hist_level_ups = level_ups ds,
                         hist_prestiges = prestiges ds,
                         hist_new_members = new_members ds\<rparr>
                        (daily_history s)\<rparr>
                else s)
      in s1\<lparr>daily_stats :=
              \<lparr>date = today, messages = 0, xp_gained = 0, voice_time = 0,
               active_users = {||}, level_ups = 0, prestiges = 0, new_members = 0\<rparr>\<rparr>)"

text \<open>
  \<^verbatim>\<open>update_daily_stats\<close>. The argument \<open>user_id\<close> is \<open>None\<close> for the member-join
  event; \<open>if user_id:\<close> is also false for the integer \<open>0\<close>.
\<close>

definition update_daily_stats ::
  "BotState \<Rightarrow> string \<Rightarrow> int option \<Rightarrow> int \<Rightarrow> rat \<Rightarrow> rat \<Rightarrow> bool \<Rightarrow> bool \<Rightarrow> bool \<Rightarrow> BotState"
where
  "update_daily_stats s today user_id msgs xp vtime level_up prestige new_member =
     (let s1 = (if date (daily_stats s) \<noteq> today then reset_daily_stats s today else s);
          d0 = daily_stats s1;
          d1 = d0\<lparr>messages := messages d0 + msgs\<rparr>;
          d2 = d1\<lparr>xp_gained := xp_gained d1 + xp\<rparr>;
          d3 = d2\<lparr>voice_time := voice_time d2 + vtime\<rparr>;
          d4 = (case user_id of
                  None \<Rightarrow> d3
                | Some u \<Rightarrow> if u \<noteq> 0 then d3\<lparr>active_users := finsert u (active_users d3)\<rparr>
                            else d3);
          d5 = (if level_up then d4\<lparr>level_ups := level_ups d4 + 1\<rparr> else d4);
          d6 = (if prestige then d5\<lparr>prestiges := prestiges d5 + 1\<rparr> else d5);
          d7 = (if new_member then d6\<lparr>new_members := new_members d6 + 1\<rparr> else d6)
      in s1\<lparr>daily_stats := d7\<rparr>)"

definition get_stats_comparison ::
  "BotState \<Rightarrow> string \<Rightarrow> string \<Rightarrow> daily_stats_t option \<times> day_summary option" where
  "get_stats_comparison s today yesterday =
     (let today_stats = (if date (daily_stats s) = today then Some (daily_stats s) else None);
          yesterday_stats = map_of (daily_history s) yesterday
      in (today_stats, yesterday_stats))"

section \<open>Awarding XP\<close>

text \<open>
  \<^verbatim>\<open>calculate_message_xp\<close>. \<open>roll\<close> is the value of \<open>random.random()\<close> and \<open>pick\<close>
  the value \<open>random.randint(bonus_xp_min, bonus_xp_max)\<close> returns when it is called.
  The result is the XP and the state with the daily bookkeeping done.
\<close>

definition calculate_message_xp ::
  "BotState \<Rightarrow> int \<Rightarrow> string \<Rightarrow> string \<Rightarrow> rat \<Rightarrow> int \<Rightarrow> rat \<times> BotState" where
  "calculate_message_xp s user_id today yesterday roll pick =
     (let base_xp = base_message_xp;
          last_daily = dict_get (user_last_daily s) user_id [];
          (multiplier, s1) =
            (if last_daily \<noteq> today then
               (let t1 = s\<lparr>user_last_daily := AList.update user_id today (user_last_daily s)\<rparr>;
                    t2 = (if last_daily = yesterday then
                            t1\<lparr>user_daily_streak :=
                                 AList.update user_id
                                   (dict_get (user_daily_streak t1) user_id 0 + 1)
                                   (user_daily_streak t1)\<rparr>
                          else
                            t1\<lparr>user_daily_streak :=
                                 AList.update user_id 1 (user_daily_streak t1)\<rparr>)
                in (daily_bonus_multiplier, t2))
             else (1, s));
          streak = dict_get (user_daily_streak s1) user_id 0;
          multiplier' = (if streak \<ge> streak_bonus_days
                         then multiplier * streak_bonus_multiplier else multiplier);
          bonus = (if roll < bonus_xp_chance then pick else 0)
      in (base_xp * multiplier' + of_int bonus, s1))"

text \<open>
  \<^verbatim>\<open>award_achievement\<close>: the user's set is created when missing, then the
  achievement is added to it.
\<close>

definition award_achievement :: "BotState \<Rightarrow> int \<Rightarrow> string \<Rightarrow> BotState" where
  "award_achievement s user_id achievement_id =
     (let s1 = (if \<not> dict_contains user_id (user_achievements s)
                then s\<lparr>user_achievements := AList.update user_id {||} (user_achievements s)\<rparr>
                else s)
      in s1\<lparr>user_achievements :=
              AList.update user_id
                (finsert achievement_id (dict_get (user_achievements s1) user_id {||}))
                (user_achievements s1)\<rparr>)"

text \<open>
  \<^verbatim>\<open>check_achievements\<close>. The set \<open>achievements\<close> is read once at the start; the
  six tests ask for six different identifiers, so awards made on the way do not change
  their outcome.
\<close>

definition check_achievements :: "BotState \<Rightarrow> int \<Rightarrow> rat \<Rightarrow> int \<Rightarrow> BotState" where
  "check_achievements s user_id xp level =
     (let achievements = dict_get (user_achievements s) user_id {||};
          s1 = (if xp \<ge> 100 \<and> ''100_xp'' |\<notin>| achievements
                then award_achievement s user_id ''100_xp'' else s);
          s2 = (if xp \<ge> 1000 \<and> ''1000_xp'' |\<notin>| achievements
                then award_achievement s1 user_id ''1000_xp'' else s1);
          s3 = (if level \<ge> 10 \<and> ''level_10'' |\<notin>| achievements
                then award_achievement s2 user_id ''level_10'' else s2);
          s4 = (if level \<ge> 25 \<and> ''level_25'' |\<notin>| achievements
                then award_achievement s3 user_id ''level_25'' else s3);
          streak = dict_get (user_daily_streak s4) user_id 0;
          s5 = (if streak \<ge> 10 \<and> ''10_day_streak'' |\<notin>| achievements
                then award_achievement s4 user_id ''10_day_streak'' else s4);
          vtime = dict_get (user_voice_time s5) user_id 0;
          s6 = (if vtime \<ge> 60 \<and> ''voice_hour'' |\<notin>| achievements
                then award_achievement s5 user_id ''voice_hour'' else s5)
      in s6)"

text \<open>
  \<^verbatim>\<open>add_xp\<close> returns \<open>(leveled_up, new_level, prestiged)\<close> and the new state.
\<close>

definition add_xp ::
  "BotState \<Rightarrow> string \<Rightarrow> int \<Rightarrow> rat \<Rightarrow> (bool \<times> int \<times> bool) \<times> BotState" where
  "add_xp s today user_id amount =
     (let old_xp = dict_get (user_xp s) user_id 0;
          new_xp = old_xp + amount;
          s1 = s\<lparr>user_xp := AList.update user_id new_xp (user_xp s)\<rparr>;
          old_level = dict_get (user_level s1) user_id 0;
          new_level = calculate_level_from_xp new_xp;
          s2 = s1\<lparr>user_level := AList.update user_id new_level (user_level s1)\<rparr>;
          s3 = check_achievements s2 user_id new_xp new_level;
          (s4, new_level', prestiged) =
            (if new_level \<ge> prestige_threshold \<and> old_level < prestige_threshold then
               (let t1 = s3\<lparr>user_prestige :=
                              AList.update user_id
                                (dict_get (user_prestige s3) user_id 0 + 1)
                                (user_prestige s3)\<rparr>;
                    t2 = t1\<lparr>user_xp := AList.update user_id 0 (user_xp t1)\<rparr>;
                    t3 = t2\<lparr>user_level := AList.update user_id 0 (user_level t2)\<rparr>;
                    t4 = award_achievement t3 user_id ''first_prestige'';
                    t5 = update_daily_stats t4 today (Some user_id) 0 0 0 False True False
                in (t5, 0, True))
             else (s3, new_level, False));
          leveled_up = (new_level' > old_level \<and> \<not> prestiged);
          s5 = (if leveled_up
                then update_daily_stats s4 today (Some user_id) 0 0 0 True False False
                else s4)
      in ((leveled_up, new_level', prestiged), s5))"

section \<open>Leaderboard\<close>

definition get_prestige_bonus_multiplier :: int where
  "get_prestige_bonus_multiplier = get_total_xp_for_level prestige_threshold"

definition get_leaderboard_score :: "BotState \<Rightarrow> int \<Rightarrow> rat" where
  "get_leaderboard_score s user_id =
     (let xp = dict_get (user_xp s) user_id 0;
          vtime = dict_get (user_voice_time s) user_id 0;
          prestige = dict_get (user_prestige s) user_id 0;
          prestige_bonus = (if prestige > 0
                            then of_int prestige * of_int get_prestige_bonus_multiplier
                            else 0)
      in xp + (vtime * voice_weight_factor) + prestige_bonus)"

text \<open>
  \<^verbatim>\<open>get_sorted_leaderboard\<close>: the loop over the keys of \<open>user_xp\<close> appends the
  users with a positive score; \<open>sorted(..., key=score, reverse=True)\<close> is a stable sort
  by descending score, here the stable \<^const>\<open>sort_key\<close> on the negated score.
\<close>

definition get_sorted_leaderboard :: "BotState \<Rightarrow> (int \<times> rat) list" where
  "get_sorted_leaderboard s =
     (let scores =
            foldl (\<lambda>scores user_id.
                     let score = get_leaderboard_score s user_id
                     in if score > 0 then scores @ [(user_id, score)] else scores)
                  [] (map fst (user_xp s))
      in sort_key (\<lambda>x. - snd x) scores)"

text \<open>
  The loop \<open>for i, (uid, score) in enumerate(leaderboard, 1)\<close> of \<^verbatim>\<open>get_user_rank\<close>:
  the position of the first entry of the user, counted from \<open>i\<close>.
\<close>

fun find_rank :: "(int \<times> rat) list \<Rightarrow> int \<Rightarrow> int \<Rightarrow> int option" where
  "find_rank [] user_id i = None"
| "find_rank ((uid, score) # rest) user_id i =
     (if uid = user_id then Some i else find_rank rest user_id (i + 1))"

definition get_user_rank :: "BotState \<Rightarrow> int \<Rightarrow> int" where
  "get_user_rank s user_id =
     (if user_xp s = [] then 1
      else
        (let target_score = get_leaderboard_score s user_id;
             leaderboard = get_sorted_leaderboard s
         in case find_rank leaderboard user_id 1 of
              Some i \<Rightarrow> i
            | None \<Rightarrow> int (length leaderboard) + 1))"

section \<open>Events\<close>

text \<open>\<^verbatim>\<open>on_member_join\<close>, as far as it touches the state.\<close>

definition on_member_join :: "BotState \<Rightarrow> string \<Rightarrow> BotState" where
  "on_member_join s today = update_daily_stats s today None 0 0 0 False False True"

text \<open>
  What the second \<^verbatim>\<open>on_message\<close> handler (the one in force, since it rebinds the
  name) reads of a message: its author, whether the author is the bot itself
  (\<open>message.author == bot.user\<close>), the channel, whether that is a \<open>DMChannel\<close>, the
  author's \<open>guild_permissions.manage_messages\<close>, and whether \<open>message.guild\<close> is set.
\<close>

record message =
  msg_author_id :: int
  msg_author_is_bot :: bool
  msg_channel_id :: int
  msg_is_dm :: bool
  msg_manage_messages :: bool
  msg_in_guild :: bool

text \<open>
  The block \<open>if message.guild:\<close> of the handler: the XP and message tracking of a
  message written by \<open>user_id\<close> at \<open>current_time\<close>. The notifications that are sent
  do not touch the state. The prestige notification calls \<open>embed.set_color\<close>, a method
  that \<open>discord.Embed\<close> does not have: the \<open>AttributeError\<close> ends the handler there, so
  after a prestige the rank check for the top-3 achievement is not reached.
\<close>

definition message_xp_tracking ::
  "BotState \<Rightarrow> string \<Rightarrow> string \<Rightarrow> rat \<Rightarrow> int \<Rightarrow> rat \<Rightarrow> int \<Rightarrow> BotState" where
  "message_xp_tracking s today yesterday current_time user_id roll pick =
     (let last_message_time = dict_get (user_last_message s) user_id 0;
          s1 = s\<lparr>total_server_messages := total_server_messages s + 1\<rparr>;
          s2 = (if \<not> dict_contains user_id (user_message_count s1)
                then award_achievement s1 user_id ''first_message'' else s1)
      in if current_time - last_message_time \<ge> antispam_cooldown_sec then
           (let (xp_gained, s3) = calculate_message_xp s2 user_id today yesterday roll pick;
                ((leveled_up, new_level, prestiged), s4) = add_xp s3 today user_id xp_gained;
                s5 = s4\<lparr>user_message_count :=
                          AList.update user_id
                            (dict_get (user_message_count s4) user_id 0 + 1)
                            (user_message_count s4)\<rparr>;
                s6 = s5\<lparr>user_last_message :=
                          AList.update user_id current_time (user_last_message s5)\<rparr>;
                s7 = update_daily_stats s6 today (Some user_id) 1 xp_gained 0 False False False
            in if prestiged then s7
               else
                 (let rank = get_user_rank s7 user_id
                  in if rank \<le> 3 then
                       (let achievements = dict_get (user_achievements s7) user_id {||}
                        in if ''top_3'' |\<notin>| achievements
                           then award_achievement s7 user_id ''top_3'' else s7)
                     else s7))
         else s2)"

text \<open>
  \<^verbatim>\<open>on_message\<close>, the handler from its first line: the bot's own messages are
  ignored; a message in a locked channel from an author without \<open>manage_messages\<close> is
  deleted and ignored; a direct message of the administrator is a status command and
  ends the handler; every other message of a guild goes through the XP block. The
  commands that \<open>bot.process_commands\<close> runs afterwards are transitions of their own.
\<close>

definition on_message ::
  "BotState \<Rightarrow> string \<Rightarrow> string \<Rightarrow> rat \<Rightarrow> message \<Rightarrow> rat \<Rightarrow> int \<Rightarrow> BotState" where
  "on_message s today yesterday current_time msg roll pick =
     (if msg_author_is_bot msg then s
      else if msg_channel_id msg |\<in>| locked_channels s \<and> \<not> msg_manage_messages msg then s
      else if msg_is_dm msg \<and> msg_author_id msg = admin_user_id then s
      else if msg_in_guild msg then
        message_xp_tracking s today yesterday current_time (msg_author_id msg) roll pick
      else s)"

text \<open>
  \<^verbatim>\<open>on_voice_state_update\<close>: \<open>before_channel\<close> and \<open>after_channel\<close> are the channels
  of the member before and after the change, \<open>None\<close> when the member is in none. Its
  notifications come after the last write to the state, so the failing
  \<open>embed.set_color\<close> of the prestige notification changes nothing here.
\<close>

definition on_voice_state_update ::
  "BotState \<Rightarrow> string \<Rightarrow> rat \<Rightarrow> int \<Rightarrow> int option \<Rightarrow> int option \<Rightarrow> BotState" where
  "on_voice_state_update s today current_time user_id before_channel after_channel =
     (if before_channel = None \<and> after_channel \<noteq> None then
        s\<lparr>voice_start_times := AList.update user_id current_time (voice_start_times s)\<rparr>
      else if before_channel \<noteq> None \<and> after_channel = None then
        (if dict_contains user_id (voice_start_times s) then
           (let start_time = dict_get (voice_start_times s) user_id 0;
                s1 = s\<lparr>voice_start_times := AList.delete user_id (voice_start_times s)\<rparr>;
                duration_minutes = (current_time - start_time) / 60
            in if duration_minutes \<ge> 1 then
                 (let xp_gained = duration_minutes * voice_xp_per_minute;
                      (result, s2) = add_xp s1 today user_id xp_gained;
                      s3 = s2\<lparr>user_voice_time :=
                                AList.update user_id
                                  (dict_get (user_voice_time s2) user_id 0 + duration_minutes)
                                  (user_voice_time s2)\<rparr>
                  in update_daily_stats s3 today (Some user_id) 0 xp_gained duration_minutes
                       False False False)
               else s1)
         else s)
      else s)"

text \<open>The other commands that write to the state.\<close>

definition setevents :: "BotState \<Rightarrow> string \<Rightarrow> BotState" where
  "setevents s event_message = s\<lparr>events_message := event_message\<rparr>"

definition lock :: "BotState \<Rightarrow> int \<Rightarrow> BotState" where
  "lock s channel_id = s\<lparr>locked_channels := finsert channel_id (locked_channels s)\<rparr>"

definition unlock :: "BotState \<Rightarrow> int \<Rightarrow> BotState" where
  "unlock s channel_id = s\<lparr>locked_channels := locked_channels s |-| {|channel_id|}\<rparr>"

section \<open>Persistence\<close>

text \<open>
  The value that \<open>json.dump\<close> writes and \<open>json.load\<close> returns. An object is a
  Python dictionary with string keys, so an association list again; numbers are
  integers or floats.
\<close>

datatype json =
    JNull
  | JBool bool
  | JInt int
  | JFloat rat
  | JStr string
  | JArr "json list"
  | JObj "(string \<times> json) list"

text \<open>
  What \<open>load_data\<close> finds at \<open>CONFIG["data_file"]\<close>: no file, a file that
  \<open>json.load\<close> cannot parse, or a parsed value.
\<close>

datatype snapshot = NoFile | Corrupt | Parsed json

text \<open>\<open>str(k)\<close> for an integer: decimal digits, with a minus sign for a negative one.\<close>

definition digit_char :: "nat \<Rightarrow> char" where
  "digit_char d = char_of (48 + d)"

function str_nat :: "nat \<Rightarrow> string" where
  "str_nat n = (if n < 10 then [digit_char n] else str_nat (n div 10) @ [digit_char (n mod 10)])"
  by pat_completeness auto

termination
  by (relation "measure id") auto

declare str_nat.simps [simp del]

definition str_int :: "int \<Rightarrow> string" where
  "str_int k = (if k < 0 then CHR ''-'' # str_nat (nat (- k)) else str_nat (nat k))"

text \<open>
  \<open>int(s)\<close> for a string: an optional sign and decimal digits; \<open>None\<close> stands for
  the \<open>ValueError\<close>. Python also accepts surrounding white space and underscores
  between digits; such keys, which \<open>save_data\<close> never writes, are rejected here.
\<close>

definition digit_val :: "char \<Rightarrow> nat option" where
  "digit_val c =
     (let v = (of_char c :: nat) in if 48 \<le> v \<and> v \<le> 57 then Some (v - 48) else None)"

fun parse_nat :: "string \<Rightarrow> nat \<Rightarrow> nat option" where
  "parse_nat [] acc = Some acc"
| "parse_nat (c # cs) acc =
     (case digit_val c of None \<Rightarrow> None | Some d \<Rightarrow> parse_nat cs (10 * acc + d))"

definition int_of_str :: "string \<Rightarrow> int option" where
  "int_of_str s =
     (case s of
        [] \<Rightarrow> None
      | c # cs \<Rightarrow>
          if c = CHR ''-'' then
            (if cs = [] then None else map_option (\<lambda>n. - int n) (parse_nat cs 0))
          else if c = CHR ''+'' then
            (if cs = [] then None else map_option int (parse_nat cs 0))
          else map_option int (parse_nat s 0))"

text \<open>
  A dictionary comprehension \<open>{f(k): v for k, v in d.items()}\<close> inserts the items one
  after the other into an empty dictionary.
\<close>

definition dict_of_items :: "('k \<times> 'v) list \<Rightarrow> ('k \<times> 'v) list" where
  "dict_of_items items = foldl (\<lambda>d (k, v). AList.update k v d) [] items"

text \<open>
  \<^verbatim>\<open>save_data\<close>: the dictionary \<open>data\<close> that is written to the file. \<open>list(v)\<close> of a
  set lists its elements once each; the order Python picks is not specified, here it is
  the sorted one.
\<close>

definition encode_daily_stats :: "daily_stats_t \<Rightarrow> json" where
  "encode_daily_stats ds =
     JObj [(''date'', JStr (date ds)),
           (''messages'', JInt (messages ds)),
           (''xp_gained'', JFloat (xp_gained ds)),
           (''voice_time'', JFloat (voice_time ds)),
           (''active_users'', JArr (map JInt (sorted_list_of_fset (active_users ds)))),
           (''level_ups'', JInt (level_ups ds)),
           (''prestiges'', JInt (prestiges ds)),
           (''new_members'', JInt (new_members ds))]"

definition encode_day_summary :: "day_summary \<Rightarrow> json" where
  "encode_day_summary h =
     JObj [(''messages'', JInt (hist_messages h)),
           (''xp_gained'', JFloat (hist_xp_gained h)),
           (''voice_time'', JFloat (hist_voice_time h)),
           (''active_users'', JInt (hist_active_users h)),
           (''level_ups'', JInt (hist_level_ups h)),
           (''prestiges'', JInt (hist_prestiges h)),
           (''new_members'', JInt (hist_new_members h))]"

definition save_data :: "BotState \<Rightarrow> json" where
  "save_data s =
     JObj [(''user_xp'',
              JObj (dict_of_items (map (\<lambda>(k, v). (str_int k, JFloat v)) (user_xp s)))),
           (''user_level'',
              JObj (dict_of_items (map (\<lambda>(k, v). (str_int k, JInt v)) (user_level s)))),
           (''user_prestige'',
              JObj (dict_of_items (map (\<lambda>(k, v). (str_int k, JInt v)) (user_prestige s)))),
           (''user_daily_streak'',
              JObj (dict_of_items (map (\<lambda>(k, v). (str_int k, JInt v)) (user_daily_streak s)))),
           (''user_last_daily'',
              JObj (dict_of_items (map (\<lambda>(k, v). (str_int k, JStr v)) (user_last_daily s)))),
           (''user_message_count'',
              JObj (dict_of_items (map (\<lambda>(k, v). (str_int k, JInt v)) (user_message_count s)))),
           (''user_voice_time'',
              JObj (dict_of_items (map (\<lambda>(k, v). (str_int k, JFloat v)) (user_voice_time s)))),
           (''user_achievements'',
              JObj (dict_of_items
                (map (\<lambda>(k, v). (str_int k, JArr (map JStr (sorted_list_of_fset v))))
                   (user_achievements s)))),
           (''events_message'', JStr (events_message s)),
           (''total_server_messages'', JInt (total_server_messages s)),
           (''daily_stats'', encode_daily_stats (daily_stats s)),
           (''daily_history'',
              JObj (map (\<lambda>(d, h). (d, encode_day_summary h)) (daily_history s)))]"

text \<open>
  \<^verbatim>\<open>load_data\<close> stores the loaded values as they come. The state of this model is
  typed, so every value is read at the type \<open>save_data\<close> writes it with (a float field
  also takes an integer); a value of another type stops the load like an exception
  (\<open>None\<close>).
\<close>

fun as_int :: "json \<Rightarrow> int option" where
  "as_int (JInt i) = Some i"
| "as_int _ = None"

fun as_float :: "json \<Rightarrow> rat option" where
  "as_float (JFloat r) = Some r"
| "as_float (JInt i) = Some (of_int i)"
| "as_float _ = None"

fun as_str :: "json \<Rightarrow> string option" where
  "as_str (JStr s) = Some s"
| "as_str _ = None"

text \<open>\<open>set(v)\<close> for a list of strings or of integers.\<close>

fun as_str_set :: "json \<Rightarrow> string fset option" where
  "as_str_set (JArr xs) = map_option fset_of_list (those (map as_str xs))"
| "as_str_set _ = None"

fun as_int_set :: "json \<Rightarrow> int fset option" where
  "as_int_set (JArr xs) = map_option fset_of_list (those (map as_int xs))"
| "as_int_set _ = None"

text \<open>
  The items of \<open>{int(k): v for k, v in data.get(key, {}).items()}\<close>, in order; the
  first key that \<open>int\<close> rejects raises.
\<close>

fun parse_items :: "(string \<times> json) list \<Rightarrow> (json \<Rightarrow> 'v option) \<Rightarrow> (int \<times> 'v) list option" where
  "parse_items [] dec = Some []"
| "parse_items ((k, v) # rest) dec =
     (case int_of_str k of
        None \<Rightarrow> None
      | Some i \<Rightarrow>
          (case dec v of
             None \<Rightarrow> None
           | Some x \<Rightarrow>
               (case parse_items rest dec of
                  None \<Rightarrow> None
                | Some r \<Rightarrow> Some ((i, x) # r))))"

text \<open>\<open>data.get(key, default)\<close>, read with \<open>dec\<close>; \<open>data\<close> must be a dictionary.\<close>

definition load_value :: "json \<Rightarrow> string \<Rightarrow> json \<Rightarrow> (json \<Rightarrow> 'v option) \<Rightarrow> 'v option" where
  "load_value data key dflt dec =
     (case data of JObj obj \<Rightarrow> dec (dict_get obj key dflt) | _ \<Rightarrow> None)"

definition load_dict :: "json \<Rightarrow> string \<Rightarrow> (json \<Rightarrow> 'v option) \<Rightarrow> (int \<times> 'v) list option" where
  "load_dict data key dec =
     load_value data key (JObj [])
       (\<lambda>j. case j of
              JObj items \<Rightarrow> map_option dict_of_items (parse_items items dec)
            | _ \<Rightarrow> None)"

definition get_field :: "(string \<times> json) list \<Rightarrow> string \<Rightarrow> (json \<Rightarrow> 'v option) \<Rightarrow> 'v option" where
  "get_field obj key dec = (case map_of obj key of None \<Rightarrow> None | Some v \<Rightarrow> dec v)"

definition decode_daily_stats :: "json \<Rightarrow> daily_stats_t option" where
  "decode_daily_stats j =
     (case j of
        JObj f \<Rightarrow>
          (case (get_field f ''date'' as_str, get_field f ''messages'' as_int,
                 get_field f ''xp_gained'' as_float, get_field f ''voice_time'' as_float,
                 get_field f ''active_users'' as_int_set, get_field f ''level_ups'' as_int,
                 get_field f ''prestiges'' as_int, get_field f ''new_members'' as_int) of
             (Some d, Some m, Some x, Some v, Some us, Some l, Some p, Some n) \<Rightarrow>
               Some \<lparr>date = d, messages = m, xp_gained = x, voice_time = v,
                     active_users = us, level_ups = l, prestiges = p, new_members = n\<rparr>
           | _ \<Rightarrow> None)
      | _ \<Rightarrow> None)"

definition decode_day_summary :: "json \<Rightarrow> day_summary option" where
  "decode_day_summary j =
     (case j of
        JObj f \<Rightarrow>
          (case (get_field f ''messages'' as_int, get_field f ''xp_gained'' as_float,
                 get_field f ''voice_time'' as_float, get_field f ''active_users'' as_int,
                 get_field f ''level_ups'' as_int, get_field f ''prestiges'' as_int,
                 get_field f ''new_members'' as_int) of
             (Some m, Some x, Some v, Some us, Some l, Some p, Some n) \<Rightarrow>
               Some \<lparr>hist_messages = m, hist_xp_gained = x, hist_voice_time = v,
                     hist_active_users = us, hist_level_ups = l, hist_prestiges = p,
                     hist_new_members = n\<rparr>
           | _ \<Rightarrow> None)
      | _ \<Rightarrow> None)"

fun decode_history :: "(string \<times> json) list \<Rightarrow> (string \<times> day_summary) list option" where
  "decode_history [] = Some []"
| "decode_history ((d, j) # rest) =
     (case decode_day_summary j of
        None \<Rightarrow> None
      | Some h \<Rightarrow>
          (case decode_history rest of None \<Rightarrow> None | Some r \<Rightarrow> Some ((d, h) # r)))"

text \<open>
  \<open>data.get('daily_stats', {... "active_users": set() ...})\<close>, with the list of
  active users turned into a set.
\<close>

definition load_daily_stats :: "json \<Rightarrow> daily_stats_t option" where
  "load_daily_stats data =
     (case data of
        JObj obj \<Rightarrow>
          (case map_of obj ''daily_stats'' of
             None \<Rightarrow> Some initial_daily_stats
           | Some j \<Rightarrow> decode_daily_stats j)
      | _ \<Rightarrow> None)"

text \<open>
  The assignments of \<open>load_data\<close> run in order inside one \<open>try\<close>: when one raises, the
  ones before it have taken effect and the ones after it are skipped.
\<close>

fun run_steps :: "(BotState \<Rightarrow> BotState option) list \<Rightarrow> BotState \<Rightarrow> BotState" where
  "run_steps [] s = s"
| "run_steps (step # steps) s =
     (case step s of None \<Rightarrow> s | Some s' \<Rightarrow> run_steps steps s')"

definition load_data :: "BotState \<Rightarrow> string \<Rightarrow> snapshot \<Rightarrow> BotState" where
  "load_data s today snap =
     (case snap of
        NoFile \<Rightarrow> reset_daily_stats s today
      | Corrupt \<Rightarrow> s
      | Parsed data \<Rightarrow>
          run_steps
            [\<lambda>s. map_option (\<lambda>d. s\<lparr>user_xp := d\<rparr>) (load_dict data ''user_xp'' as_float),
             \<lambda>s. map_option (\<lambda>d. s\<lparr>user_level := d\<rparr>) (load_dict data ''user_level'' as_int),
             \<lambda>s. map_option (\<lambda>d. s\<lparr>user_prestige := d\<rparr>)
                    (load_dict data ''user_prestige'' as_int),
             \<lambda>s. map_option (\<lambda>d. s\<lparr>user_daily_streak := d\<rparr>)
                    (load_dict data ''user_daily_streak'' as_int),
             \<lambda>s. map_option (\<lambda>d. s\<lparr>user_last_daily := d\<rparr>)
                    (load_dict data ''user_last_daily'' as_str),
             \<lambda>s. map_option (\<lambda>d. s\<lparr>user_message_count := d\<rparr>)
                    (load_dict data ''user_message_count'' as_int),
             \<lambda>s. map_option (\<lambda>d. s\<lparr>user_voice_time := d\<rparr>)
                    (load_dict data ''user_voice_time'' as_float),
             \<lambda>s. map_option (\<lambda>d. s\<lparr>user_achievements := d\<rparr>)
                    (load_dict data ''user_achievements'' as_str_set),
             \<lambda>s. map_option (\<lambda>m. s\<lparr>events_message := m\<rparr>)
                    (load_value data ''events_message'' (JStr ''No upcoming events.'') as_str),
             \<lambda>s. map_option (\<lambda>n. s\<lparr>total_server_messages := n\<rparr>)
                    (load_value data ''total_server_messages'' (JInt 0) as_int),
             \<lambda>s. map_option (\<lambda>ds. s\<lparr>daily_stats := ds\<rparr>) (load_daily_stats data),
             \<lambda>s. map_option (\<lambda>h. s\<lparr>daily_history := h\<rparr>)
                    (load_value data ''daily_history'' (JObj [])
                       (\<lambda>j. case j of JObj items \<Rightarrow> decode_history items | _ \<Rightarrow> None))]
            s)"

section \<open>Reachable states\<close>

text \<open>
  The states the bot can be in: the initial one, and what the event handlers and
  commands make of a reachable state.
\<close>

inductive reachable :: "BotState \<Rightarrow> bool" where
  initial: "reachable initial_state"
| loaded: "reachable s \<Longrightarrow> reachable (load_data s today snap)"
| message: "reachable s \<Longrightarrow>
     reachable (on_message s today yesterday current_time msg roll pick)"
| voice: "reachable s \<Longrightarrow>
     reachable (on_voice_state_update s today current_time user_id before_channel after_channel)"
| joined: "reachable s \<Longrightarrow> reachable (on_member_join s today)"
| events: "reachable s \<Longrightarrow> reachable (setevents s event_message)"
| locked: "reachable s \<Longrightarrow> reachable (lock s channel_id)"
| unlocked: "reachable s \<Longrightarrow> reachable (unlock s channel_id)"

section \<open>Notions used in the statements\<close>

text \<open>
  The quantity \<open>req\<close> that the loop of \<^verbatim>\<open>calculate_level_from_xp\<close> compares with
  the XP, named for the proofs.
\<close>

definition cumulative_requirement :: "int \<Rightarrow> rat" where
  "cumulative_requirement mid =
     base_xp_requirement * ((xp_multiplier powi mid - 1) / (xp_multiplier - 1))"

text \<open>The entry that \<open>reset_daily_stats\<close> stores for the day it closes.\<close>

definition frozen_summary :: "daily_stats_t \<Rightarrow> day_summary" where
  "frozen_summary ds =
     \<lparr>hist_messages = messages ds, hist_xp_gained = xp_gained ds,
      hist_voice_time = voice_time ds,
      hist_active_users = int (fcard (active_users ds)),
      hist_level_ups = level_ups ds, hist_prestiges = prestiges ds,
      hist_new_members = new_members ds\<rparr>"

text \<open>No user has a negative XP value or a negative voice-minute total.\<close>

definition nonneg_totals :: "BotState \<Rightarrow> bool" where
  "nonneg_totals s \<longleftrightarrow>
     list_all (\<lambda>(u, x). 0 \<le> x) (user_xp s) \<and> list_all (\<lambda>(u, v). 0 \<le> v) (user_voice_time s)"

text \<open>
  The dictionaries that \<open>save_data\<close> and \<open>load_data\<close> rebuild by a comprehension
  hold every key once, as every Python dictionary does.
\<close>

definition dict_keys_unique :: "BotState \<Rightarrow> bool" where
  "dict_keys_unique s \<longleftrightarrow>
     distinct (map fst (user_xp s)) \<and> distinct (map fst (user_level s)) \<and>
     distinct (map fst (user_prestige s)) \<and> distinct (map fst (user_daily_streak s)) \<and>
     distinct (map fst (user_last_daily s)) \<and> distinct (map fst (user_message_count s)) \<and>
     distinct (map fst (user_voice_time s)) \<and> distinct (map fst (user_achievements s))"

text \<open>
  Every date of the history is before the date of the current statistics (the strings
  \<open>YYYY-MM-DD\<close> are ordered like the dates).
\<close>

definition history_in_the_past :: "BotState \<Rightarrow> bool" where
  "history_in_the_past s \<longleftrightarrow>
     list_all (\<lambda>(d, h). d < date (daily_stats s)) (daily_history s)"

text \<open>Example states, on which the theorems below are run.\<close>

definition guild_message :: message where
  "guild_message =
     \<lparr>msg_author_id = 7, msg_author_is_bot = False, msg_channel_id = 1, msg_is_dm = False,
      msg_manage_messages = False, msg_in_guild = True\<rparr>"

definition cooldown_state :: BotState where
  "cooldown_state =
     initial_state\<lparr>user_last_message := [(7, 100)], user_message_count := [(7, 1)],
                    user_xp := [(7, 3)], user_level := [(7, 0)],
                    total_server_messages := 1\<rparr>"

definition streak_state :: BotState where
  "streak_state =
     initial_state\<lparr>user_last_daily := [(7, ''2024-04-30'')], user_daily_streak := [(7, 1)]\<rparr>"

definition rollover_state :: BotState where
  "rollover_state =
     initial_state\<lparr>daily_stats :=
       \<lparr>date = ''2024-05-01'', messages = 5, xp_gained = 12, voice_time = 0,
        active_users = {|7|}, level_ups = 0, prestiges = 0, new_members = 0\<rparr>,
       daily_history :=
         [(''2024-04-30'',
           \<lparr>hist_messages = 9, hist_xp_gained = 20, hist_voice_time = 0,
            hist_active_users = 2, hist_level_ups = 1, hist_prestiges = 0,
            hist_new_members = 0\<rparr>)]\<rparr>"

definition clock_back_state :: BotState where
  "clock_back_state =
     on_member_join
       (on_member_join
          (on_member_join (on_member_join initial_state ''2024-05-01'') ''2024-05-02'')
          ''2024-05-01'')
       ''2024-05-01''"

definition voice_state :: BotState where
  "voice_state = initial_state\<lparr>user_xp := [(7, 3)], voice_start_times := [(7, 100)]\<rparr>"

section \<open>The level search stays within its bounds\<close>

lemma level_search_bounds:
  "left \<le> right \<Longrightarrow>
     left \<le> level_search xp left right \<and> level_search xp left right \<le> right"
proof (induction xp left right rule: level_search.induct)
  case (1 xp left right)
  show ?case
  proof (cases "left < right")
    case False
    then have "level_search xp left right = left"
      by (subst level_search.simps) simp
    with "1.prems" show ?thesis
      by simp
  next
    case True
    define mid where "mid = (left + right + 1) div 2"
    define req where
      "req = base_xp_requirement * ((xp_multiplier powi mid - 1) / (xp_multiplier - 1))"
    from True have mid_bounds: "left < mid" "mid \<le> right"
      by (simp_all add: mid_def)
    show ?thesis
    proof (cases "req \<le> xp")
      case up: True
      from "1.IH"(1) [OF True mid_def req_def up] mid_bounds
      have "mid \<le> level_search xp mid right \<and> level_search xp mid right \<le> right"
        by simp
      moreover have "level_search xp left right = level_search xp mid right"
        using True up
        by (subst level_search.simps) (simp add: Let_def mid_def req_def)
      ultimately show ?thesis
        using mid_bounds by simp
    next
      case down: False
      from "1.IH"(2) [OF True mid_def req_def down] mid_bounds
      have "left \<le> level_search xp left (mid - 1) \<and> level_search xp left (mid - 1) \<le> mid - 1"
        by simp
      moreover have "level_search xp left right = level_search xp left (mid - 1)"
        using True down
        by (subst level_search.simps) (simp add: Let_def mid_def req_def)
      ultimately show ?thesis
        using mid_bounds by simp
    qed
  qed
qed

text \<open>
  C10. For every input \<open>xp\<close>, however large or small, \<open>calculate_level_from_xp\<close>
  returns a level in the closed range from \<open>0\<close> to \<open>prestige_threshold\<close>; no XP
  amount maps to a level above 50.
\<close>

theorem calculate_level_from_xp_range:
  "0 \<le> calculate_level_from_xp xp \<and> calculate_level_from_xp xp \<le> prestige_threshold
     \<and> calculate_level_from_xp xp \<le> 50"
  using level_search_bounds [of 0 prestige_threshold xp]
  by (simp add: calculate_level_from_xp_def prestige_threshold_def)

section \<open>The closed form of the level search\<close>

lemma cumulative_requirement_nat:
  "cumulative_requirement (int n) = 75 / 2 * ((7 / 5) ^ n - 1)"
  by (simp add: cumulative_requirement_def base_xp_requirement_def xp_multiplier_def)

lemma cumulative_requirement_Suc:
  "cumulative_requirement (int n + 1) = cumulative_requirement (int n) + 15 * (7 / 5) ^ n"
proof -
  have "cumulative_requirement (int (Suc n)) =
          cumulative_requirement (int n) + 15 * (7 / 5) ^ n"
    unfolding cumulative_requirement_nat by (simp add: algebra_simps)
  moreover have "int (Suc n) = int n + 1" by simp
  ultimately show ?thesis by (simp only:)
qed

lemma cumulative_requirement_mono_nat:
  "m \<le> n \<Longrightarrow> cumulative_requirement (int m) \<le> cumulative_requirement (int n)"
  unfolding cumulative_requirement_nat
  by (simp add: power_increasing)

lemma cumulative_requirement_mono:
  assumes "0 \<le> a" "a \<le> b"
  shows "cumulative_requirement a \<le> cumulative_requirement b"
  using cumulative_requirement_mono_nat [of "nat a" "nat b"] assms by simp

lemma level_search_found:
  "left \<le> right \<Longrightarrow>
     level_search xp left right = left \<or>
     cumulative_requirement (level_search xp left right) \<le> xp"
proof (induction xp left right rule: level_search.induct)
  case (1 xp left right)
  show ?case
  proof (cases "left < right")
    case False
    then have "level_search xp left right = left"
      by (subst level_search.simps) simp
    then show ?thesis by simp
  next
    case True
    define mid where "mid = (left + right + 1) div 2"
    define req where
      "req = base_xp_requirement * ((xp_multiplier powi mid - 1) / (xp_multiplier - 1))"
    have req_eq: "req = cumulative_requirement mid"
      by (simp add: req_def cumulative_requirement_def)
    from True have mid_bounds: "left < mid" "mid \<le> right"
      by (simp_all add: mid_def)
    show ?thesis
    proof (cases "req \<le> xp")
      case up: True
      have step: "level_search xp left right = level_search xp mid right"
        using True up
        by (subst level_search.simps) (simp add: Let_def mid_def req_def)
      from "1.IH"(1) [OF True mid_def req_def up] mid_bounds
      have "level_search xp mid right = mid \<or>
            cumulative_requirement (level_search xp mid right) \<le> xp"
        by simp
      with up req_eq step show ?thesis by auto
    next
      case down: False
      have step: "level_search xp left right = level_search xp left (mid - 1)"
        using True down
        by (subst level_search.simps) (simp add: Let_def mid_def req_def)
      from "1.IH"(2) [OF True mid_def req_def down] mid_bounds
      show ?thesis unfolding step by simp
    qed
  qed
qed

lemma calculate_level_from_xp_below:
  assumes "xp < cumulative_requirement level" "1 \<le> level"
  shows "calculate_level_from_xp xp < level"
proof (rule ccontr)
  let ?r = "calculate_level_from_xp xp"
  assume "\<not> ?r < level"
  then have ge: "level \<le> ?r" by simp
  with assms(2) have "?r \<noteq> 0" by simp
  with level_search_found [of 0 prestige_threshold xp]
  have "cumulative_requirement ?r \<le> xp"
    by (simp add: calculate_level_from_xp_def prestige_threshold_def)
  moreover have "cumulative_requirement level \<le> cumulative_requirement ?r"
    using cumulative_requirement_mono [of level ?r] assms(2) ge by simp
  ultimately show False using assms(1) by simp
qed

lemma get_total_xp_for_level_Suc:
  "get_total_xp_for_level (int n + 1) =
     get_total_xp_for_level (int n) + calculate_level_requirement (int n + 1)"
proof -
  have "[1..int n + 1] = [1..int n] @ [int n + 1]"
    using upto_rec2 [of 1 "int n + 1"] by simp
  then show ?thesis
    by (simp add: get_total_xp_for_level_def)
qed

lemma calculate_level_requirement_le:
  "of_int (calculate_level_requirement (int n + 1)) \<le> (15 * (7 / 5) ^ n :: rat)"
  by (simp add: calculate_level_requirement_def base_xp_requirement_def xp_multiplier_def)

lemma total_le_cumulative_nat:
  "of_int (get_total_xp_for_level (int n)) \<le> cumulative_requirement (int n)"
proof (induction n)
  case 0
  show ?case
    unfolding cumulative_requirement_nat by (simp add: get_total_xp_for_level_def)
next
  case (Suc n)
  have "int (Suc n) = int n + 1" by simp
  then show ?case
    using Suc calculate_level_requirement_le [of n]
    unfolding \<open>int (Suc n) = int n + 1\<close> get_total_xp_for_level_Suc cumulative_requirement_Suc
    by simp
qed

lemma total_le_cumulative:
  "0 \<le> level \<Longrightarrow> of_int (get_total_xp_for_level level) \<le> cumulative_requirement level"
  using total_le_cumulative_nat [of "nat level"] by simp

lemma total_lt_cumulative_next:
  assumes "0 \<le> level"
  shows "of_int (get_total_xp_for_level level) < cumulative_requirement (level + 1)"
proof -
  have "cumulative_requirement (int (nat level) + 1) =
          cumulative_requirement (int (nat level)) + 15 * (7 / 5) ^ nat level"
    by (rule cumulative_requirement_Suc)
  moreover have "(0::rat) < 15 * (7 / 5) ^ nat level" by simp
  ultimately have "cumulative_requirement level < cumulative_requirement (level + 1)"
    using assms by simp
  with total_le_cumulative [OF assms] show ?thesis by simp
qed

text \<open>
  From level 3 on the floored sum is strictly below the closed form: level 3 costs
  \<open>15 + 21 + 29 = 65\<close> by \<open>get_total_xp_for_level\<close> and \<open>65.4\<close> by the closed form, and
  every further level adds at most as much to the sum as to the closed form.
\<close>

lemma total_lt_cumulative_nat:
  "3 \<le> n \<Longrightarrow> of_int (get_total_xp_for_level (int n)) < cumulative_requirement (int n)"
proof (induction n rule: nat_induct_at_least)
  case base
  have "get_total_xp_for_level 3 = 65" by code_simp
  then show ?case
    using cumulative_requirement_nat [of 3] by (simp add: power3_eq_cube)
next
  case (Suc n)
  have "int (Suc n) = int n + 1" by simp
  then show ?case
    using Suc.IH calculate_level_requirement_le [of n]
    unfolding \<open>int (Suc n) = int n + 1\<close> get_total_xp_for_level_Suc cumulative_requirement_Suc
    by simp
qed

lemma level_of_total_xp_below:
  assumes "3 \<le> level"
  shows "calculate_level_from_xp (of_int (get_total_xp_for_level level)) < level"
proof -
  from assms have "3 \<le> nat level" by simp
  from total_lt_cumulative_nat [OF this] assms
  have "of_int (get_total_xp_for_level level) < cumulative_requirement level" by simp
  with assms show ?thesis
    using calculate_level_from_xp_below by simp
qed

text \<open>
  C2. The claim: for every level, the level computed from
  \<open>get_total_xp_for_level level\<close> is \<open>level\<close> again, and just below that total it is
  less. The code does not keep the first half. At level 3 the total is
  \<open>15 + 21 + 29 = 65\<close>, and \<open>calculate_level_from_xp 65\<close> is 2, not 3, because its closed
  form asks \<open>65.4\<close> for level 3. \<open>get_progress_in_level\<close>, which the profile shows,
  combines the two formulas: at 65 XP and level 2 it reports a progress of 29 out of
  29 XP, a full bar without the level.
\<close>

theorem level_of_total_xp_at_level_3:
  "get_total_xp_for_level 3 = 65
   \<and> calculate_level_from_xp (of_int (get_total_xp_for_level 3)) = 2
   \<and> calculate_level_from_xp (of_int (get_total_xp_for_level 3)) \<noteq> 3
   \<and> get_progress_in_level 65 (calculate_level_from_xp 65) = (29, 29)"
  by code_simp

section \<open>What each operation leaves unchanged\<close>

lemma reset_daily_stats_frame [simp]:
  "events_message (reset_daily_stats s today) = events_message s"
  "user_xp (reset_daily_stats s today) = user_xp s"
  "user_level (reset_daily_stats s today) = user_level s"
  "user_prestige (reset_daily_stats s today) = user_prestige s"
  "user_last_message (reset_daily_stats s today) = user_last_message s"
  "user_daily_streak (reset_daily_stats s today) = user_daily_streak s"
  "user_last_daily (reset_daily_stats s today) = user_last_daily s"
  "user_achievements (reset_daily_stats s today) = user_achievements s"
  "voice_start_times (reset_daily_stats s today) = voice_start_times s"
  "user_message_count (reset_daily_stats s today) = user_message_count s"
  "user_voice_time (reset_daily_stats s today) = user_voice_time s"
  "total_server_messages (reset_daily_stats s today) = total_server_messages s"
  "locked_channels (reset_daily_stats s today) = locked_channels s"
  by (simp_all add: reset_daily_stats_def Let_def)

lemma update_daily_stats_frame [simp]:
  "events_message (update_daily_stats s today user_id msgs xp vtime level_up prestige new_member) = events_message s"
  "user_xp (update_daily_stats s today user_id msgs xp vtime level_up prestige new_member) = user_xp s"
  "user_level (update_daily_stats s today user_id msgs xp vtime level_up prestige new_member) = user_level s"
  "user_prestige (update_daily_stats s today user_id msgs xp vtime level_up prestige new_member) = user_prestige s"
  "user_last_message (update_daily_stats s today user_id msgs xp vtime level_up prestige new_member) = user_last_message s"
  "user_daily_streak (update_daily_stats s today user_id msgs xp vtime level_up prestige new_member) = user_daily_streak s"
  "user_last_daily (update_daily_stats s today user_id msgs xp vtime level_up prestige new_member) = user_last_daily s"
  "user_achievements (update_daily_stats s today user_id msgs xp vtime level_up prestige new_member) = user_achievements s"
  "voice_start_times (update_daily_stats s today user_id msgs xp vtime level_up prestige new_member) = voice_start_times s"
  "user_message_count (update_daily_stats s today user_id msgs xp vtime level_up prestige new_member) = user_message_count s"
  "user_voice_time (update_daily_stats s today user_id msgs xp vtime level_up prestige new_member) = user_voice_time s"
  "total_server_messages (update_daily_stats s today user_id msgs xp vtime level_up prestige new_member) = total_server_messages s"
  "locked_channels (update_daily_stats s today user_id msgs xp vtime level_up prestige new_member) = locked_channels s"
  by (simp_all add: update_daily_stats_def Let_def)

lemma award_achievement_frame [simp]:
  "events_message (award_achievement s user_id achievement_id) = events_message s"
  "user_xp (award_achievement s user_id achievement_id) = user_xp s"
  "user_level (award_achievement s user_id achievement_id) = user_level s"
  "user_prestige (award_achievement s user_id achievement_id) = user_prestige s"
  "user_last_message (award_achievement s user_id achievement_id) = user_last_message s"
  "user_daily_streak (award_achievement s user_id achievement_id) = user_daily_streak s"
  "user_last_daily (award_achievement s user_id achievement_id) = user_last_daily s"
  "voice_start_times (award_achievement s user_id achievement_id) = voice_start_times s"
  "user_message_count (award_achievement s user_id achievement_id) = user_message_count s"
  "user_voice_time (award_achievement s user_id achievement_id) = user_voice_time s"
  "total_server_messages (award_achievement s user_id achievement_id) = total_server_messages s"
  "locked_channels (award_achievement s user_id achievement_id) = locked_channels s"
  "daily_stats (award_achievement s user_id achievement_id) = daily_stats s"
  "daily_history (award_achievement s user_id achievement_id) = daily_history s"
  by (simp_all add: award_achievement_def Let_def)

lemma check_achievements_frame [simp]:
  "events_message (check_achievements s user_id xp level) = events_message s"
  "user_xp (check_achievements s user_id xp level) = user_xp s"
  "user_level (check_achievements s user_id xp level) = user_level s"
  "user_prestige (check_achievements s user_id xp level) = user_prestige s"
  "user_last_message (check_achievements s user_id xp level) = user_last_message s"
  "user_daily_streak (check_achievements s user_id xp level) = user_daily_streak s"
  "user_last_daily (check_achievements s user_id xp level) = user_last_daily s"
  "voice_start_times (check_achievements s user_id xp level) = voice_start_times s"
  "user_message_count (check_achievements s user_id xp level) = user_message_count s"
  "user_voice_time (check_achievements s user_id xp level) = user_voice_time s"
  "total_server_messages (check_achievements s user_id xp level) = total_server_messages s"
  "locked_channels (check_achievements s user_id xp level) = locked_channels s"
  "daily_stats (check_achievements s user_id xp level) = daily_stats s"
  "daily_history (check_achievements s user_id xp level) = daily_history s"
  by (simp_all add: check_achievements_def Let_def)

lemma list_all_update:
  "list_all P al \<Longrightarrow> P (k, v) \<Longrightarrow> list_all P (AList.update k v al)"
  by (induction al) auto

lemma dict_get_update [simp]:
  "dict_get (AList.update k v d) k' dflt = (if k' = k then v else dict_get d k' dflt)"
  by (simp add: dict_get_def update_conv')

lemma calculate_level_from_xp_zero: "calculate_level_from_xp 0 = 0"
  by (simp add: calculate_level_from_xp_def prestige_threshold_def level_search.simps
        Let_def base_xp_requirement_def xp_multiplier_def power_divide)

section \<open>The transition \<open>add_xp\<close>\<close>

text \<open>The two branches of \<open>add_xp\<close>, by what they write to the three progress maps.\<close>

lemma add_xp_prestige_branch:
  assumes "calculate_level_from_xp (dict_get (user_xp s) user_id 0 + amount) \<ge> prestige_threshold"
    and "dict_get (user_level s) user_id 0 < prestige_threshold"
  shows "fst (add_xp s today user_id amount) = (False, 0, True)"
    and "user_xp (snd (add_xp s today user_id amount)) =
           AList.update user_id 0 (user_xp s)"
    and "user_level (snd (add_xp s today user_id amount)) =
           AList.update user_id 0 (user_level s)"
    and "user_prestige (snd (add_xp s today user_id amount)) =
           AList.update user_id (dict_get (user_prestige s) user_id 0 + 1) (user_prestige s)"
  using assms by (simp_all add: add_xp_def Let_def)

lemma add_xp_plain_branch:
  assumes "\<not> (calculate_level_from_xp (dict_get (user_xp s) user_id 0 + amount) \<ge> prestige_threshold
             \<and> dict_get (user_level s) user_id 0 < prestige_threshold)"
  shows "fst (add_xp s today user_id amount) =
           (calculate_level_from_xp (dict_get (user_xp s) user_id 0 + amount)
              > dict_get (user_level s) user_id 0,
            calculate_level_from_xp (dict_get (user_xp s) user_id 0 + amount), False)"
    and "user_xp (snd (add_xp s today user_id amount)) =
           AList.update user_id (dict_get (user_xp s) user_id 0 + amount) (user_xp s)"
    and "user_level (snd (add_xp s today user_id amount)) =
           AList.update user_id
             (calculate_level_from_xp (dict_get (user_xp s) user_id 0 + amount)) (user_level s)"
    and "user_prestige (snd (add_xp s today user_id amount)) = user_prestige s"
  using assms by (auto simp add: add_xp_def Let_def)

text \<open>
  C1. After every call of \<open>add_xp\<close>, also one that takes the prestige branch, the
  stored level of the user is \<open>calculate_level_from_xp\<close> of the stored XP. The call
  reports \<open>prestiged\<close> exactly when it increments the prestige counter; then XP and
  level are both stored as 0, and otherwise the counter is untouched and the XP is the
  old XP plus the amount. For a positive amount on non-negative XP the stored XP is 0
  exactly when prestige was incremented.
\<close>

theorem add_xp_level_invariant:
  assumes "add_xp s today user_id amount = ((leveled_up, new_level, prestiged), s')"
  shows "map_of (user_level s') user_id =
           Some (calculate_level_from_xp (dict_get (user_xp s') user_id 0))
       \<and> dict_get (user_prestige s') user_id 0 =
           dict_get (user_prestige s) user_id 0 + (if prestiged then 1 else 0)
       \<and> (if prestiged
          then map_of (user_xp s') user_id = Some 0 \<and> map_of (user_level s') user_id = Some 0
          else map_of (user_xp s') user_id = Some (dict_get (user_xp s) user_id 0 + amount)
             \<and> user_prestige s' = user_prestige s)
       \<and> (0 \<le> dict_get (user_xp s) user_id 0 \<and> 0 < amount \<longrightarrow>
            (dict_get (user_xp s') user_id 0 = 0 \<longleftrightarrow> prestiged))"
proof (cases "calculate_level_from_xp (dict_get (user_xp s) user_id 0 + amount) \<ge> prestige_threshold
              \<and> dict_get (user_level s) user_id 0 < prestige_threshold")
  case True
  then have b: "prestige_threshold \<le> calculate_level_from_xp (dict_get (user_xp s) user_id 0 + amount)"
    "dict_get (user_level s) user_id 0 < prestige_threshold" by simp_all
  from add_xp_prestige_branch [OF b, of today] assms
  show ?thesis
    by (simp add: update_conv' calculate_level_from_xp_zero)
next
  case False
  from add_xp_plain_branch [OF False, of today] assms
  show ?thesis
    by (simp add: update_conv')
qed

text \<open>
  The theorem on the first award of a new user: 20 XP on the initial state give
  level 1 and no prestige.
\<close>

theorem add_xp_level_invariant_witness:
  "fst (add_xp initial_state ''2024-05-01'' 7 20) = (True, 1, False)
   \<and> map_of (user_level (snd (add_xp initial_state ''2024-05-01'' 7 20))) 7 = Some 1
   \<and> map_of (user_xp (snd (add_xp initial_state ''2024-05-01'' 7 20))) 7 = Some 20
   \<and> calculate_level_from_xp 20 = 1
   \<and> dict_get (user_prestige (snd (add_xp initial_state ''2024-05-01'' 7 20))) 7 0 = 0"
proof -
  have lvl: "calculate_level_from_xp 20 = 1"
    by (simp add: calculate_level_from_xp_def prestige_threshold_def level_search.simps
          Let_def base_xp_requirement_def xp_multiplier_def power_divide)
  have init: "dict_get (user_xp initial_state) 7 0 = 0"
    "dict_get (user_level initial_state) 7 0 = 0"
    "dict_get (user_prestige initial_state) 7 0 = 0"
    by (simp_all add: initial_state_def dict_get_def)
  have plain: "\<not> (calculate_level_from_xp (dict_get (user_xp initial_state) 7 0 + 20)
                    \<ge> prestige_threshold
                  \<and> dict_get (user_level initial_state) 7 0 < prestige_threshold)"
    by (simp add: init lvl prestige_threshold_def)
  have res: "fst (add_xp initial_state ''2024-05-01'' 7 20) = (True, 1, False)"
    using add_xp_plain_branch(1) [OF plain, of "''2024-05-01''"] by (simp add: init lvl)
  then have run: "add_xp initial_state ''2024-05-01'' 7 20 =
      ((True, 1, False), snd (add_xp initial_state ''2024-05-01'' 7 20))"
    by (simp add: prod_eq_iff)
  from add_xp_level_invariant [OF run] res lvl init show ?thesis
    by (simp add: dict_get_def)
qed

text \<open>
  C4. One call of \<open>add_xp\<close> increments the prestige counter of the user at most once,
  and by one: it does so exactly when the level of the new XP reaches the threshold
  while the stored level was below it, whatever the amount. On that transition XP and
  level are stored as 0 (the XP above the threshold is dropped), the call returns level
  0 and reports no level-up. No other user's counter changes.
\<close>

theorem add_xp_prestige_at_most_once:
  assumes "add_xp s today user_id amount = ((leveled_up, new_level, prestiged), s')"
  shows "(prestiged \<longleftrightarrow>
            calculate_level_from_xp (dict_get (user_xp s) user_id 0 + amount) \<ge> prestige_threshold
            \<and> dict_get (user_level s) user_id 0 < prestige_threshold)
       \<and> user_prestige s' =
           (if prestiged
            then AList.update user_id (dict_get (user_prestige s) user_id 0 + 1) (user_prestige s)
            else user_prestige s)
       \<and> (dict_get (user_prestige s') user_id 0 = dict_get (user_prestige s) user_id 0
          \<or> dict_get (user_prestige s') user_id 0 = dict_get (user_prestige s) user_id 0 + 1)
       \<and> (\<forall>u. u \<noteq> user_id \<longrightarrow> map_of (user_prestige s') u = map_of (user_prestige s) u)
       \<and> (prestiged \<longrightarrow>
            dict_get (user_xp s') user_id 0 = 0 \<and> dict_get (user_level s') user_id 0 = 0
            \<and> new_level = 0 \<and> \<not> leveled_up)"
proof (cases "calculate_level_from_xp (dict_get (user_xp s) user_id 0 + amount) \<ge> prestige_threshold
              \<and> dict_get (user_level s) user_id 0 < prestige_threshold")
  case True
  then have b: "prestige_threshold \<le> calculate_level_from_xp (dict_get (user_xp s) user_id 0 + amount)"
    "dict_get (user_level s) user_id 0 < prestige_threshold" by simp_all
  from add_xp_prestige_branch [OF b, of today] assms b
  show ?thesis
    by (simp add: update_conv')
next
  case False
  from add_xp_plain_branch [OF False, of today] assms False
  show ?thesis
    by (auto simp add: update_conv')
qed

text \<open>
  The theorem on an award far beyond the threshold: a user at level 49 with 500 million
  XP receives a thousand million XP more.
\<close>

theorem add_xp_prestige_at_most_once_witness:
  "fst (add_xp (initial_state\<lparr>user_xp := [(7, 500000000)], user_level := [(7, 49)]\<rparr>)
          ''2024-05-01'' 7 1000000000) = (False, 0, True)
   \<and> user_prestige (snd (add_xp (initial_state\<lparr>user_xp := [(7, 500000000)], user_level := [(7, 49)]\<rparr>)
          ''2024-05-01'' 7 1000000000)) = [(7, 1)]
   \<and> dict_get (user_xp (snd (add_xp (initial_state\<lparr>user_xp := [(7, 500000000)], user_level := [(7, 49)]\<rparr>)
          ''2024-05-01'' 7 1000000000))) 7 0 = 0
   \<and> dict_get (user_level (snd (add_xp (initial_state\<lparr>user_xp := [(7, 500000000)], user_level := [(7, 49)]\<rparr>)
          ''2024-05-01'' 7 1000000000))) 7 0 = 0"
proof -
  define s0 where "s0 = initial_state\<lparr>user_xp := [(7, 500000000)], user_level := [(7, 49)]\<rparr>"
  have lvl: "calculate_level_from_xp 1500000000 = 50"
    by (simp add: calculate_level_from_xp_def prestige_threshold_def level_search.simps
          Let_def base_xp_requirement_def xp_multiplier_def power_divide)
  have init: "dict_get (user_xp s0) 7 0 = 500000000"
    "dict_get (user_level s0) 7 0 = 49"
    "dict_get (user_prestige s0) 7 0 = 0"
    "user_prestige s0 = []"
    by (simp_all add: s0_def initial_state_def dict_get_def)
  have b: "prestige_threshold \<le> calculate_level_from_xp (dict_get (user_xp s0) 7 0 + 1000000000)"
    "dict_get (user_level s0) 7 0 < prestige_threshold"
    by (simp_all add: init lvl prestige_threshold_def)
  have res: "fst (add_xp s0 ''2024-05-01'' 7 1000000000) = (False, 0, True)"
    using add_xp_prestige_branch(1) [OF b, of "''2024-05-01''"] .
  then have run: "add_xp s0 ''2024-05-01'' 7 1000000000 =
      ((False, 0, True), snd (add_xp s0 ''2024-05-01'' 7 1000000000))"
    by (simp add: prod_eq_iff)
  from add_xp_prestige_at_most_once [OF run] res init show ?thesis
    unfolding s0_def [symmetric] by simp
qed

section \<open>Ranks\<close>

lemma find_rank_absent:
  "user_id \<notin> fst ` set board \<Longrightarrow> find_rank board user_id i = None"
  by (induction board user_id i rule: find_rank.induct) auto

lemma leaderboard_scores_keys:
  "fst ` set (foldl (\<lambda>scores user_id.
                       let score = get_leaderboard_score s user_id
                       in if score > 0 then scores @ [(user_id, score)] else scores)
                    acc ks)
     \<subseteq> fst ` set acc \<union> set ks"
proof (induction ks arbitrary: acc)
  case Nil
  show ?case by simp
next
  case (Cons k ks)
  show ?case
  proof (cases "get_leaderboard_score s k > 0")
    case True
    with Cons [of "acc @ [(k, get_leaderboard_score s k)]"] show ?thesis
      by (auto simp add: Let_def)
  next
    case False
    with Cons [of acc] show ?thesis
      by (auto simp add: Let_def)
  qed
qed

lemma get_sorted_leaderboard_keys:
  "fst ` set (get_sorted_leaderboard s) \<subseteq> fst ` set (user_xp s)"
  using leaderboard_scores_keys [of s "[]" "map fst (user_xp s)"]
  by (simp add: get_sorted_leaderboard_def Let_def)

lemma dict_contains_iff: "dict_contains k d \<longleftrightarrow> k \<in> fst ` set d"
proof (cases "map_of d k")
  case None
  then have "k \<notin> fst ` set d"
    by (simp add: map_of_eq_None_iff)
  moreover have "\<not> dict_contains k d"
    unfolding dict_contains_def None by simp
  ultimately show ?thesis by simp
next
  case (Some v)
  then have "(k, v) \<in> set d" by (rule map_of_SomeD)
  then have "k \<in> fst ` set d" by force
  moreover have "dict_contains k d"
    unfolding dict_contains_def Some by simp
  ultimately show ?thesis by simp
qed

text \<open>
  C3, as amended. When the XP map is empty (nobody has recorded XP),
  \<open>get_user_rank\<close> returns 1 for every user. When it is not empty, a user with no
  entry in it is ranked behind the whole leaderboard: the result is the length of the
  sorted leaderboard plus one.
\<close>

theorem get_user_rank_without_xp:
  "(user_xp s = [] \<longrightarrow> get_user_rank s user_id = 1) \<and>
   (user_xp s \<noteq> [] \<and> \<not> dict_contains user_id (user_xp s) \<longrightarrow>
      get_user_rank s user_id = int (length (get_sorted_leaderboard s)) + 1)"
proof (intro conjI impI)
  assume "user_xp s = []"
  then show "get_user_rank s user_id = 1"
    by (simp add: get_user_rank_def)
next
  assume a: "user_xp s \<noteq> [] \<and> \<not> dict_contains user_id (user_xp s)"
  then have "user_id \<notin> fst ` set (get_sorted_leaderboard s)"
    using get_sorted_leaderboard_keys [of s] by (auto simp add: dict_contains_iff)
  then have "find_rank (get_sorted_leaderboard s) user_id 1 = None"
    by (rule find_rank_absent)
  with a show "get_user_rank s user_id = int (length (get_sorted_leaderboard s)) + 1"
    by (simp add: get_user_rank_def Let_def)
qed

lemma one_user_leaderboard:
  "get_sorted_leaderboard (initial_state\<lparr>user_xp := [(1, 10)]\<rparr>) = [(1, 10)]"
  by (simp add: get_sorted_leaderboard_def get_leaderboard_score_def Let_def
        initial_state_def dict_get_def voice_weight_factor_def)

text \<open>
  The theorem on the empty state and on a state where user 1 alone has XP.
\<close>

theorem get_user_rank_without_xp_witness:
  "user_xp initial_state = [] \<and> get_user_rank initial_state 2 = 1 \<and>
   user_xp (initial_state\<lparr>user_xp := [(1, 10)]\<rparr>) \<noteq> [] \<and>
   \<not> dict_contains 2 (user_xp (initial_state\<lparr>user_xp := [(1, 10)]\<rparr>)) \<and>
   get_user_rank (initial_state\<lparr>user_xp := [(1, 10)]\<rparr>) 2 = 2"
proof -
  have empty: "user_xp initial_state = []"
    by (simp add: initial_state_def)
  have other: "user_xp (initial_state\<lparr>user_xp := [(1, 10)]\<rparr>) \<noteq> []"
    "\<not> dict_contains 2 (user_xp (initial_state\<lparr>user_xp := [(1, 10)]\<rparr>))"
    by (simp_all add: dict_contains_def)
  from get_user_rank_without_xp [of initial_state 2]
    get_user_rank_without_xp [of "initial_state\<lparr>user_xp := [(1, 10)]\<rparr>" 2]
    empty other
  show ?thesis
    by (simp add: one_user_leaderboard)
qed

text \<open>
  The claim as stated fails as soon as another user has XP: with user 1 at 10 XP, user
  2, who has no entry, is ranked 2.
\<close>

theorem get_user_rank_without_xp_counterexample:
  "\<not> dict_contains 2 (user_xp (initial_state\<lparr>user_xp := [(1, 10)]\<rparr>)) \<and>
   get_leaderboard_score (initial_state\<lparr>user_xp := [(1, 10)]\<rparr>) 2 = 0 \<and>
   get_user_rank (initial_state\<lparr>user_xp := [(1, 10)]\<rparr>) 2 \<noteq> 1"
proof -
  have "get_leaderboard_score (initial_state\<lparr>user_xp := [(1, 10)]\<rparr>) 2 = 0"
    by (simp add: get_leaderboard_score_def dict_get_def initial_state_def Let_def)
  moreover have "get_user_rank (initial_state\<lparr>user_xp := [(1, 10)]\<rparr>) 2 = 2"
    by (simp add: get_user_rank_def one_user_leaderboard Let_def)
  ultimately show ?thesis
    by (simp add: dict_contains_def)
qed

section \<open>Messages within the cooldown\<close>

text \<open>
  C5, as amended. A message of the bot itself, a message in a locked channel from an
  author without \<open>manage_messages\<close> (it is deleted) and a message outside a guild
  change nothing. Every other guild message that arrives within the cooldown leaves the
  sender's XP, level, prestige, streak, last-daily date, message count and last-message
  time, the voice data, the daily statistics and the history unchanged. It is still
  counted in \<open>total_server_messages\<close>, and it awards the first-message achievement when
  the sender has no message count yet; with a message count the achievements are
  unchanged too.
\<close>

theorem on_message_within_cooldown:
  "(msg_author_is_bot msg
      \<or> (msg_channel_id msg |\<in>| locked_channels s \<and> \<not> msg_manage_messages msg)
      \<or> \<not> msg_in_guild msg
    \<longrightarrow> on_message s today yesterday current_time msg roll pick = s)
   \<and> (\<not> msg_author_is_bot msg
      \<and> \<not> (msg_channel_id msg |\<in>| locked_channels s \<and> \<not> msg_manage_messages msg)
      \<and> \<not> (msg_is_dm msg \<and> msg_author_id msg = admin_user_id)
      \<and> msg_in_guild msg
      \<and> current_time - dict_get (user_last_message s) (msg_author_id msg) 0
          < antispam_cooldown_sec
    \<longrightarrow> on_message s today yesterday current_time msg roll pick =
           (if dict_contains (msg_author_id msg) (user_message_count s)
            then s\<lparr>total_server_messages := total_server_messages s + 1\<rparr>
            else award_achievement (s\<lparr>total_server_messages := total_server_messages s + 1\<rparr>)
                   (msg_author_id msg) ''first_message'')
        \<and> user_xp (on_message s today yesterday current_time msg roll pick) = user_xp s
        \<and> user_level (on_message s today yesterday current_time msg roll pick) = user_level s
        \<and> user_prestige (on_message s today yesterday current_time msg roll pick) = user_prestige s
        \<and> user_daily_streak (on_message s today yesterday current_time msg roll pick) = user_daily_streak s
        \<and> user_last_daily (on_message s today yesterday current_time msg roll pick) = user_last_daily s
        \<and> user_message_count (on_message s today yesterday current_time msg roll pick) = user_message_count s
        \<and> user_last_message (on_message s today yesterday current_time msg roll pick) = user_last_message s
        \<and> user_voice_time (on_message s today yesterday current_time msg roll pick) = user_voice_time s
        \<and> daily_stats (on_message s today yesterday current_time msg roll pick) = daily_stats s
        \<and> daily_history (on_message s today yesterday current_time msg roll pick) = daily_history s
        \<and> total_server_messages (on_message s today yesterday current_time msg roll pick)
            = total_server_messages s + 1
        \<and> (dict_contains (msg_author_id msg) (user_message_count s) \<longrightarrow>
            user_achievements (on_message s today yesterday current_time msg roll pick)
              = user_achievements s))"
  by (simp add: on_message_def message_xp_tracking_def Let_def)

text \<open>
  A state in which user 7 wrote a message at time 100; the next message arrives at
  time 102, within the cooldown of 5 seconds. In a locked channel the same message
  changes nothing.
\<close>

theorem on_message_within_cooldown_witness:
  "\<not> msg_author_is_bot guild_message
   \<and> msg_channel_id guild_message |\<notin>| locked_channels cooldown_state
   \<and> \<not> msg_is_dm guild_message
   \<and> msg_in_guild guild_message
   \<and> (102 :: rat) - dict_get (user_last_message cooldown_state) (msg_author_id guild_message) 0
       < antispam_cooldown_sec
   \<and> on_message cooldown_state ''2024-05-01'' ''2024-04-30'' 102 guild_message (1 / 2) 3
       = cooldown_state\<lparr>total_server_messages := 2\<rparr>
   \<and> user_xp (on_message cooldown_state ''2024-05-01'' ''2024-04-30'' 102 guild_message (1 / 2) 3)
       = [(7, 3)]
   \<and> msg_channel_id guild_message |\<in>| locked_channels (lock cooldown_state 1)
   \<and> \<not> msg_manage_messages guild_message
   \<and> on_message (lock cooldown_state 1) ''2024-05-01'' ''2024-04-30'' 102 guild_message (1 / 2) 3
       = lock cooldown_state 1"
proof -
  have sender: "\<not> msg_author_is_bot guild_message" "\<not> msg_is_dm guild_message"
    "msg_in_guild guild_message" "msg_author_id guild_message = 7"
    "\<not> msg_manage_messages guild_message" "msg_channel_id guild_message = 1"
    by (simp_all add: guild_message_def)
  have unlocked: "locked_channels cooldown_state = {||}"
    by (simp add: cooldown_state_def initial_state_def)
  have relocked: "locked_channels (lock cooldown_state 1) = {|1|}"
    by (simp add: lock_def unlocked)
  have gate: "(102 :: rat) - dict_get (user_last_message cooldown_state) 7 0
                < antispam_cooldown_sec"
    by (simp add: cooldown_state_def dict_get_def antispam_cooldown_sec_def)
  have known: "dict_contains 7 (user_message_count cooldown_state)"
    "total_server_messages cooldown_state = 1" "user_xp cooldown_state = [(7, 3)]"
    by (simp_all add: cooldown_state_def dict_contains_def)
  from on_message_within_cooldown
         [of guild_message cooldown_state "''2024-05-01''" "''2024-04-30''" 102 "1 / 2" 3]
    on_message_within_cooldown
         [of guild_message "lock cooldown_state 1" "''2024-05-01''" "''2024-04-30''" 102
             "1 / 2" 3]
    sender unlocked relocked gate known
  show ?thesis by simp
qed

text \<open>
  The claim as stated fails on the same message: user 7, not the bot, writes in an
  unlocked guild channel within the cooldown; no field of the sender's progress
  changes, but the global counter \<open>total_server_messages\<close> goes from 1 to 2.
\<close>

theorem on_message_within_cooldown_counterexample:
  "\<not> msg_author_is_bot guild_message
   \<and> msg_channel_id guild_message |\<notin>| locked_channels cooldown_state
   \<and> msg_in_guild guild_message
   \<and> (102 :: rat) - dict_get (user_last_message cooldown_state) (msg_author_id guild_message) 0
       < antispam_cooldown_sec
   \<and> total_server_messages cooldown_state = 1
   \<and> total_server_messages (on_message cooldown_state ''2024-05-01'' ''2024-04-30'' 102 guild_message (1 / 2) 3) = 2"
  by (simp add: on_message_def message_xp_tracking_def Let_def cooldown_state_def
        guild_message_def initial_state_def dict_get_def dict_contains_def
        antispam_cooldown_sec_def)

section \<open>The daily bonus and the streak\<close>

text \<open>
  C6. When the user's last daily date is not today, \<open>calculate_message_xp\<close> applies
  the daily-bonus multiplier, stores today as the last daily date, and sets the streak
  to the old streak plus 1 if the last daily date was yesterday and to 1 otherwise.
  When the last daily date is today, the state (so the streak and the date) is
  unchanged and no daily bonus is applied. In both cases the streak multiplier applies
  from \<open>streak_bonus_days\<close> on and the random bonus is added after the multipliers.
\<close>

theorem calculate_message_xp_daily:
  "(dict_get (user_last_daily s) user_id [] \<noteq> today \<longrightarrow>
      user_last_daily (snd (calculate_message_xp s user_id today yesterday roll pick))
        = AList.update user_id today (user_last_daily s)
      \<and> dict_get (user_last_daily (snd (calculate_message_xp s user_id today yesterday roll pick)))
          user_id [] = today
      \<and> dict_get (user_daily_streak (snd (calculate_message_xp s user_id today yesterday roll pick)))
          user_id 0
        = (if dict_get (user_last_daily s) user_id [] = yesterday
           then dict_get (user_daily_streak s) user_id 0 + 1 else 1)
      \<and> fst (calculate_message_xp s user_id today yesterday roll pick)
        = base_message_xp
            * (daily_bonus_multiplier
                * (if (if dict_get (user_last_daily s) user_id [] = yesterday
                       then dict_get (user_daily_streak s) user_id 0 + 1 else 1)
                      \<ge> streak_bonus_days
                   then streak_bonus_multiplier else 1))
          + of_int (if roll < bonus_xp_chance then pick else 0))
   \<and> (dict_get (user_last_daily s) user_id [] = today \<longrightarrow>
      snd (calculate_message_xp s user_id today yesterday roll pick) = s
      \<and> fst (calculate_message_xp s user_id today yesterday roll pick)
        = base_message_xp
            * (if dict_get (user_daily_streak s) user_id 0 \<ge> streak_bonus_days
               then streak_bonus_multiplier else 1)
          + of_int (if roll < bonus_xp_chance then pick else 0))"
  by (simp add: calculate_message_xp_def Let_def)

text \<open>
  A user with streak 1 whose last daily date is April 30. The first message of May 1
  brings the streak to 2 and earns \<open>2 * 1.5 = 3\<close> XP; the next message of May 1 leaves
  the streak at 2 and earns 2 XP; after a skipped day, the first message of May 3
  resets the streak to 1.
\<close>

theorem calculate_message_xp_daily_witness:
  "dict_get (user_last_daily streak_state) 7 [] \<noteq> ''2024-05-01''
   \<and> dict_get (user_daily_streak
        (snd (calculate_message_xp streak_state 7 ''2024-05-01'' ''2024-04-30'' (1 / 2) 3))) 7 0 = 2
   \<and> fst (calculate_message_xp streak_state 7 ''2024-05-01'' ''2024-04-30'' (1 / 2) 3) = 3
   \<and> dict_get (user_last_daily
        (snd (calculate_message_xp streak_state 7 ''2024-05-01'' ''2024-04-30'' (1 / 2) 3))) 7 []
       = ''2024-05-01''
   \<and> snd (calculate_message_xp
        (snd (calculate_message_xp streak_state 7 ''2024-05-01'' ''2024-04-30'' (1 / 2) 3))
        7 ''2024-05-01'' ''2024-04-30'' (1 / 2) 3)
       = snd (calculate_message_xp streak_state 7 ''2024-05-01'' ''2024-04-30'' (1 / 2) 3)
   \<and> dict_get (user_daily_streak
        (snd (calculate_message_xp
          (snd (calculate_message_xp streak_state 7 ''2024-05-01'' ''2024-04-30'' (1 / 2) 3))
          7 ''2024-05-03'' ''2024-05-02'' (1 / 2) 3))) 7 0 = 1"
proof -
  let ?day1 = "snd (calculate_message_xp streak_state 7 ''2024-05-01'' ''2024-04-30'' (1 / 2) 3)"
  have start: "dict_get (user_last_daily streak_state) 7 [] = ''2024-04-30''"
    "dict_get (user_daily_streak streak_state) 7 0 = 1"
    by (simp_all add: streak_state_def dict_get_def)
  have first: "dict_get (user_last_daily ?day1) 7 [] = ''2024-05-01''"
    "dict_get (user_daily_streak ?day1) 7 0 = 2"
    "fst (calculate_message_xp streak_state 7 ''2024-05-01'' ''2024-04-30'' (1 / 2) 3) = 3"
    using calculate_message_xp_daily
      [of streak_state 7 "''2024-05-01''" "''2024-04-30''" "1 / 2" 3] start
    by (simp_all add: base_message_xp_def daily_bonus_multiplier_def streak_bonus_days_def
          bonus_xp_chance_def)
  have again: "snd (calculate_message_xp ?day1 7 ''2024-05-01'' ''2024-04-30'' (1 / 2) 3) = ?day1"
    using calculate_message_xp_daily
      [of ?day1 7 "''2024-05-01''" "''2024-04-30''" "1 / 2" 3] first(1)
    by simp
  have skipped: "dict_get (user_daily_streak
        (snd (calculate_message_xp ?day1 7 ''2024-05-03'' ''2024-05-02'' (1 / 2) 3))) 7 0 = 1"
    using calculate_message_xp_daily
      [of ?day1 7 "''2024-05-03''" "''2024-05-02''" "1 / 2" 3] first(1)
    by simp
  from start first again skipped show ?thesis by simp
qed

section \<open>The daily rollover\<close>

lemma reset_daily_stats_history:
  "daily_history (reset_daily_stats s today) =
     (if date (daily_stats s) \<noteq> [] \<and> date (daily_stats s) \<noteq> today
      then AList.update (date (daily_stats s)) (frozen_summary (daily_stats s)) (daily_history s)
      else daily_history s)"
  by (simp add: reset_daily_stats_def Let_def frozen_summary_def)

lemma reset_daily_stats_stats:
  "daily_stats (reset_daily_stats s today) =
     \<lparr>date = today, messages = 0, xp_gained = 0, voice_time = 0,
      active_users = {||}, level_ups = 0, prestiges = 0, new_members = 0\<rparr>"
  by (simp add: reset_daily_stats_def Let_def)

lemma reset_daily_stats_idem:
  "reset_daily_stats (reset_daily_stats s today) today = reset_daily_stats s today"
  by (simp add: reset_daily_stats_def Let_def)

lemma update_daily_stats_date:
  "date (daily_stats (update_daily_stats s today u m x v l p n)) = today"
  by (simp add: update_daily_stats_def Let_def reset_daily_stats_stats split: option.splits)

lemma update_daily_stats_history:
  "daily_history (update_daily_stats s today u m x v l p n) =
     (if date (daily_stats s) \<noteq> [] \<and> date (daily_stats s) \<noteq> today
      then AList.update (date (daily_stats s)) (frozen_summary (daily_stats s)) (daily_history s)
      else daily_history s)"
  by (simp add: update_daily_stats_def Let_def reset_daily_stats_history)

lemma update_daily_stats_same_day:
  assumes "date (daily_stats s) = today"
  shows "daily_history (update_daily_stats s today u m x v l p n) = daily_history s"
    and "messages (daily_stats (update_daily_stats s today u m x v l p n))
           = messages (daily_stats s) + m"
    and "xp_gained (daily_stats (update_daily_stats s today u m x v l p n))
           = xp_gained (daily_stats s) + x"
    and "voice_time (daily_stats (update_daily_stats s today u m x v l p n))
           = voice_time (daily_stats s) + v"
    and "active_users (daily_stats (update_daily_stats s today u m x v l p n))
           = (case u of None \<Rightarrow> active_users (daily_stats s)
              | Some k \<Rightarrow> if k \<noteq> 0 then finsert k (active_users (daily_stats s))
                          else active_users (daily_stats s))"
    and "level_ups (daily_stats (update_daily_stats s today u m x v l p n))
           = level_ups (daily_stats s) + (if l then 1 else 0)"
    and "prestiges (daily_stats (update_daily_stats s today u m x v l p n))
           = prestiges (daily_stats s) + (if p then 1 else 0)"
    and "new_members (daily_stats (update_daily_stats s today u m x v l p n))
           = new_members (daily_stats s) + (if n then 1 else 0)"
    and "update_daily_stats s today None 0 0 0 False False False = s"
  using assms by (simp_all add: update_daily_stats_def Let_def split: option.splits)

lemma length_update_le: "length (AList.update k v al) \<le> Suc (length al)"
  by (induction al) auto

lemma history_in_the_past_fresh:
  "history_in_the_past s \<Longrightarrow> \<not> dict_contains (date (daily_stats s)) (daily_history s)"
  by (auto simp add: history_in_the_past_def dict_contains_iff list_all_iff)

lemma history_in_the_past_kept:
  assumes "history_in_the_past s" "date (daily_stats s) \<le> today"
  shows "history_in_the_past (update_daily_stats s today u m x v l p n)"
proof -
  have earlier: "list_all (\<lambda>(d, h). d < today) (daily_history s)"
  proof (cases "date (daily_stats s) = today")
    case True
    with assms(1) show ?thesis by (simp add: history_in_the_past_def)
  next
    case False
    with assms(2) have "date (daily_stats s) < today"
      by (simp add: order.strict_iff_order)
    with assms(1) show ?thesis
      by (auto simp add: history_in_the_past_def list_all_iff)
  qed
  show ?thesis
  proof (cases "date (daily_stats s) \<noteq> [] \<and> date (daily_stats s) \<noteq> today")
    case True
    with assms(2) have "date (daily_stats s) < today"
      by (simp add: order.strict_iff_order)
    with earlier have "list_all (\<lambda>(d, h). d < today)
        (AList.update (date (daily_stats s)) (frozen_summary (daily_stats s)) (daily_history s))"
      by (intro list_all_update) simp_all
    with True show ?thesis
      by (simp add: history_in_the_past_def update_daily_stats_date update_daily_stats_history)
  next
    case False
    then have "daily_history (update_daily_stats s today u m x v l p n) = daily_history s"
      by (auto simp add: update_daily_stats_history)
    with earlier show ?thesis
      by (simp add: history_in_the_past_def update_daily_stats_date)
  qed
qed

text \<open>
  C7, as amended. Two rollover checks on the same date: after the first call of
  \<open>update_daily_stats\<close> the statistics carry today's date; the first call writes at
  most one history entry, the frozen summary of the day it closes, under that day's
  date, and leaves the entries of all other dates alone; the second call leaves the
  history as it is and adds its increments to the counters of the first, so nothing
  accumulated today is lost; a second call without increments changes nothing at all.
  The history stays a dictionary with one entry per date and grows by at most one
  entry. \<open>reset_daily_stats\<close> itself is idempotent on a fixed date. The entry of the
  first call replaces an entry that the history already holds for the day it closes;
  when the history holds none for that day, no existing entry is changed. It holds none
  whenever all its dates are before the date of the current statistics, and a check on
  the same or a later date keeps it so: as long as the calendar date does not go back,
  no frozen entry is ever overwritten.
\<close>

theorem daily_rollover_idempotent:
  "date (daily_stats (update_daily_stats s today u1 m1 x1 v1 l1 p1 n1)) = today
   \<and> daily_history (update_daily_stats s today u1 m1 x1 v1 l1 p1 n1) =
       (if date (daily_stats s) \<noteq> [] \<and> date (daily_stats s) \<noteq> today
        then AList.update (date (daily_stats s)) (frozen_summary (daily_stats s))
               (daily_history s)
        else daily_history s)
   \<and> (\<forall>d. d \<noteq> date (daily_stats s) \<longrightarrow>
         map_of (daily_history (update_daily_stats s today u1 m1 x1 v1 l1 p1 n1)) d
           = map_of (daily_history s) d)
   \<and> daily_history
        (update_daily_stats (update_daily_stats s today u1 m1 x1 v1 l1 p1 n1)
           today u2 m2 x2 v2 l2 p2 n2)
       = daily_history (update_daily_stats s today u1 m1 x1 v1 l1 p1 n1)
   \<and> messages (daily_stats
        (update_daily_stats (update_daily_stats s today u1 m1 x1 v1 l1 p1 n1)
           today u2 m2 x2 v2 l2 p2 n2))
       = messages (daily_stats (update_daily_stats s today u1 m1 x1 v1 l1 p1 n1)) + m2
   \<and> xp_gained (daily_stats
        (update_daily_stats (update_daily_stats s today u1 m1 x1 v1 l1 p1 n1)
           today u2 m2 x2 v2 l2 p2 n2))
       = xp_gained (daily_stats (update_daily_stats s today u1 m1 x1 v1 l1 p1 n1)) + x2
   \<and> voice_time (daily_stats
        (update_daily_stats (update_daily_stats s today u1 m1 x1 v1 l1 p1 n1)
           today u2 m2 x2 v2 l2 p2 n2))
       = voice_time (daily_stats (update_daily_stats s today u1 m1 x1 v1 l1 p1 n1)) + v2
   \<and> active_users (daily_stats (update_daily_stats s today u1 m1 x1 v1 l1 p1 n1))
       |\<subseteq>| active_users (daily_stats
        (update_daily_stats (update_daily_stats s today u1 m1 x1 v1 l1 p1 n1)
           today u2 m2 x2 v2 l2 p2 n2))
   \<and> level_ups (daily_stats
        (update_daily_stats (update_daily_stats s today u1 m1 x1 v1 l1 p1 n1)
           today u2 m2 x2 v2 l2 p2 n2))
       = level_ups (daily_stats (update_daily_stats s today u1 m1 x1 v1 l1 p1 n1))
         + (if l2 then 1 else 0)
   \<and> prestiges (daily_stats
        (update_daily_stats (update_daily_stats s today u1 m1 x1 v1 l1 p1 n1)
           today u2 m2 x2 v2 l2 p2 n2))
       = prestiges (daily_stats (update_daily_stats s today u1 m1 x1 v1 l1 p1 n1))
         + (if p2 then 1 else 0)
   \<and> new_members (daily_stats
        (update_daily_stats (update_daily_stats s today u1 m1 x1 v1 l1 p1 n1)
           today u2 m2 x2 v2 l2 p2 n2))
       = new_members (daily_stats (update_daily_stats s today u1 m1 x1 v1 l1 p1 n1))
         + (if n2 then 1 else 0)
   \<and> update_daily_stats (update_daily_stats s today u1 m1 x1 v1 l1 p1 n1)
        today None 0 0 0 False False False
       = update_daily_stats s today u1 m1 x1 v1 l1 p1 n1
   \<and> length (daily_history
        (update_daily_stats (update_daily_stats s today u1 m1 x1 v1 l1 p1 n1)
           today u2 m2 x2 v2 l2 p2 n2))
       \<le> length (daily_history s) + 1
   \<and> (distinct (map fst (daily_history s)) \<longrightarrow>
        distinct (map fst (daily_history
          (update_daily_stats (update_daily_stats s today u1 m1 x1 v1 l1 p1 n1)
           today u2 m2 x2 v2 l2 p2 n2))))
   \<and> reset_daily_stats (reset_daily_stats s today) today = reset_daily_stats s today
   \<and> (\<not> dict_contains (date (daily_stats s)) (daily_history s) \<longrightarrow>
        (\<forall>d. dict_contains d (daily_history s) \<longrightarrow>
           map_of (daily_history
             (update_daily_stats (update_daily_stats s today u1 m1 x1 v1 l1 p1 n1)
           today u2 m2 x2 v2 l2 p2 n2)) d
           = map_of (daily_history s) d))
   \<and> (history_in_the_past s \<longrightarrow>
        \<not> dict_contains (date (daily_stats s)) (daily_history s))
   \<and> (history_in_the_past s \<and> date (daily_stats s) \<le> today \<longrightarrow>
        history_in_the_past (update_daily_stats s today u1 m1 x1 v1 l1 p1 n1)
        \<and> history_in_the_past
            (update_daily_stats (update_daily_stats s today u1 m1 x1 v1 l1 p1 n1)
           today u2 m2 x2 v2 l2 p2 n2))"
proof -
  let ?s1 = "update_daily_stats s today u1 m1 x1 v1 l1 p1 n1"
  let ?s2 = "update_daily_stats ?s1 today u2 m2 x2 v2 l2 p2 n2"
  have today: "date (daily_stats ?s1) = today"
    by (rule update_daily_stats_date)
  note second = update_daily_stats_same_day [OF today]
  have hist1: "daily_history ?s1 =
       (if date (daily_stats s) \<noteq> [] \<and> date (daily_stats s) \<noteq> today
        then AList.update (date (daily_stats s)) (frozen_summary (daily_stats s))
               (daily_history s)
        else daily_history s)"
    by (rule update_daily_stats_history)
  have others: "\<forall>d. d \<noteq> date (daily_stats s) \<longrightarrow>
         map_of (daily_history ?s1) d = map_of (daily_history s) d"
    by (simp add: hist1 update_conv')
  have hist2: "daily_history ?s2 = daily_history ?s1"
    by (rule second(1))
  have msgs: "messages (daily_stats ?s2) = messages (daily_stats ?s1) + m2"
    by (rule second(2))
  have xps: "xp_gained (daily_stats ?s2) = xp_gained (daily_stats ?s1) + x2"
    by (rule second(3))
  have voices: "voice_time (daily_stats ?s2) = voice_time (daily_stats ?s1) + v2"
    by (rule second(4))
  have users: "active_users (daily_stats ?s1) |\<subseteq>| active_users (daily_stats ?s2)"
    by (auto simp add: second(5) split: option.splits)
  have ups: "level_ups (daily_stats ?s2)
      = level_ups (daily_stats ?s1) + (if l2 then 1 else 0)"
    by (rule second(6))
  have pres: "prestiges (daily_stats ?s2)
      = prestiges (daily_stats ?s1) + (if p2 then 1 else 0)"
    by (rule second(7))
  have news: "new_members (daily_stats ?s2)
      = new_members (daily_stats ?s1) + (if n2 then 1 else 0)"
    by (rule second(8))
  have idle: "update_daily_stats ?s1 today None 0 0 0 False False False = ?s1"
    by (rule second(9))
  have len: "length (daily_history ?s2) \<le> length (daily_history s) + 1"
    unfolding hist2 by (simp add: hist1 length_update_le)
  have dist: "distinct (map fst (daily_history s)) \<longrightarrow>
      distinct (map fst (daily_history ?s2))"
    unfolding hist2 by (simp add: hist1 distinct_update)
  have idem: "reset_daily_stats (reset_daily_stats s today) today = reset_daily_stats s today"
    by (rule reset_daily_stats_idem)
  have kept: "\<not> dict_contains (date (daily_stats s)) (daily_history s) \<longrightarrow>
        (\<forall>d. dict_contains d (daily_history s) \<longrightarrow>
           map_of (daily_history ?s2) d = map_of (daily_history s) d)"
    unfolding hist2
  proof (intro impI allI)
    fix d
    assume "\<not> dict_contains (date (daily_stats s)) (daily_history s)"
      and "dict_contains d (daily_history s)"
    then have "d \<noteq> date (daily_stats s)" by auto
    with others show "map_of (daily_history ?s1) d = map_of (daily_history s) d"
      by simp
  qed
  have fresh: "history_in_the_past s \<longrightarrow>
        \<not> dict_contains (date (daily_stats s)) (daily_history s)"
    by (simp add: history_in_the_past_fresh)
  have past: "history_in_the_past s \<and> date (daily_stats s) \<le> today \<longrightarrow>
        history_in_the_past ?s1 \<and> history_in_the_past ?s2"
  proof (intro impI conjI)
    assume h: "history_in_the_past s \<and> date (daily_stats s) \<le> today"
    then show one: "history_in_the_past ?s1"
      by (simp add: history_in_the_past_kept)
    have "date (daily_stats ?s1) \<le> today"
      by (simp add: today)
    with one show "history_in_the_past ?s2"
      by (rule history_in_the_past_kept)
  qed
  show ?thesis
    by (intro conjI; fact)
qed

text \<open>
  A day with 5 messages that ends, with April 30 already in the history: the first
  update of May 2 adds May 1 to the history (5 messages) and counts its own message,
  the second update adds to it, the history has not changed again, and the entry of
  April 30 is as it was.
\<close>

theorem daily_rollover_idempotent_witness:
  "distinct (map fst (daily_history rollover_state))
   \<and> history_in_the_past rollover_state
   \<and> date (daily_stats rollover_state) \<le> ''2024-05-02''
   \<and> \<not> dict_contains (date (daily_stats rollover_state)) (daily_history rollover_state)
   \<and> dict_contains ''2024-04-30'' (daily_history rollover_state)
   \<and> daily_history
        (update_daily_stats
           (update_daily_stats rollover_state ''2024-05-02'' (Some 7) 1 3 0 False False False)
           ''2024-05-02'' (Some 8) 1 2 0 False False False)
       = daily_history rollover_state
         @ [(''2024-05-01'', frozen_summary (daily_stats rollover_state))]
   \<and> hist_messages (frozen_summary (daily_stats rollover_state)) = 5
   \<and> map_of (daily_history
        (update_daily_stats
           (update_daily_stats rollover_state ''2024-05-02'' (Some 7) 1 3 0 False False False)
           ''2024-05-02'' (Some 8) 1 2 0 False False False)) ''2024-04-30''
       = map_of (daily_history rollover_state) ''2024-04-30''
   \<and> messages (daily_stats
        (update_daily_stats
           (update_daily_stats rollover_state ''2024-05-02'' (Some 7) 1 3 0 False False False)
           ''2024-05-02'' (Some 8) 1 2 0 False False False))
       = 2
   \<and> history_in_the_past
        (update_daily_stats
           (update_daily_stats rollover_state ''2024-05-02'' (Some 7) 1 3 0 False False False)
           ''2024-05-02'' (Some 8) 1 2 0 False False False)
   \<and> distinct (map fst (daily_history
        (update_daily_stats
           (update_daily_stats rollover_state ''2024-05-02'' (Some 7) 1 3 0 False False False)
           ''2024-05-02'' (Some 8) 1 2 0 False False False)))"
proof -
  let ?s1 = "update_daily_stats rollover_state ''2024-05-02'' (Some 7) 1 3 0 False False False"
  let ?s2 = "update_daily_stats ?s1 ''2024-05-02'' (Some 8) 1 2 0 False False False"
  note T = daily_rollover_idempotent
    [of rollover_state "''2024-05-02''" "Some 7" 1 3 0 False False False
        "Some 8" 1 2 0 False False False]
  note T' = T [THEN conjunct2]
  note T4 = T' [THEN conjunct2, THEN conjunct2]
  note T13 = T4 [THEN conjunct2, THEN conjunct2, THEN conjunct2, THEN conjunct2,
    THEN conjunct2, THEN conjunct2, THEN conjunct2, THEN conjunct2, THEN conjunct2]
  note T16 = T13 [THEN conjunct2, THEN conjunct2, THEN conjunct2]
  have start: "daily_history rollover_state
      = [(''2024-04-30'',
           \<lparr>hist_messages = 9, hist_xp_gained = 20, hist_voice_time = 0,
            hist_active_users = 2, hist_level_ups = 1, hist_prestiges = 0,
            hist_new_members = 0\<rparr>)]"
    "date (daily_stats rollover_state) = ''2024-05-01''"
    "hist_messages (frozen_summary (daily_stats rollover_state)) = 5"
    by (simp_all add: rollover_state_def initial_state_def frozen_summary_def)
  have order: "(''2024-04-30'' :: string) < ''2024-05-01''"
    "(''2024-05-01'' :: string) \<le> ''2024-05-02''"
    by (simp_all add: less_char_def less_eq_char_def)
  have keys: "distinct (map fst (daily_history rollover_state))"
    by (simp add: start(1))
  have past: "history_in_the_past rollover_state"
    unfolding history_in_the_past_def start(1,2) using order(1) by simp
  have later: "date (daily_stats rollover_state) \<le> ''2024-05-02''"
    unfolding start(2) by (rule order(2))
  have known: "dict_contains ''2024-04-30'' (daily_history rollover_state)"
    unfolding start(1) by (simp add: dict_contains_def)
  have fresh: "\<not> dict_contains (date (daily_stats rollover_state)) (daily_history rollover_state)"
    using T16 [THEN conjunct2, THEN conjunct1] past by (rule mp)
  have "daily_history ?s1
      = AList.update ''2024-05-01'' (frozen_summary (daily_stats rollover_state))
          (daily_history rollover_state)"
    using T' [THEN conjunct1] by (simp add: start(2))
  then have hist1: "daily_history ?s1
      = daily_history rollover_state
        @ [(''2024-05-01'', frozen_summary (daily_stats rollover_state))]"
    unfolding start(1) by simp
  have hist2: "daily_history ?s2 = daily_history ?s1"
    by (rule T4 [THEN conjunct1])
  have first: "messages (daily_stats ?s1) = 1"
    by (simp add: update_daily_stats_def Let_def reset_daily_stats_stats start(2))
  have msgs: "messages (daily_stats ?s2) = 2"
    using T4 [THEN conjunct2, THEN conjunct1] first by simp
  have same: "map_of (daily_history ?s2) ''2024-04-30''
      = map_of (daily_history rollover_state) ''2024-04-30''"
    using T16 [THEN conjunct1] fresh known by blast
  have past2: "history_in_the_past ?s2"
    using T16 [THEN conjunct2, THEN conjunct2] past later by blast
  have keys2: "distinct (map fst (daily_history ?s2))"
    using T13 [THEN conjunct2, THEN conjunct1] keys by (rule mp)
  show ?thesis
    using keys past later fresh known hist1 start(3) same msgs past2 keys2
    unfolding hist2 by (intro conjI) simp_all
qed

lemma clock_back_state_reachable: "reachable clock_back_state"
  unfolding clock_back_state_def by (intro reachable.joined reachable.initial)

lemma update_daily_stats_new_day:
  assumes "date (daily_stats s) \<noteq> today"
  shows "new_members (daily_stats (update_daily_stats s today u m x v l p n))
           = (if n then 1 else 0)"
  using assms
  by (simp add: update_daily_stats_def Let_def reset_daily_stats_stats split: option.splits)

lemma clock_back_state_history:
  "map_option hist_new_members (map_of (daily_history clock_back_state) ''2024-05-01'') = Some 1"
  "date (daily_stats clock_back_state) = ''2024-05-01''"
  "new_members (daily_stats clock_back_state) = 2"
proof -
  define a where "a = on_member_join initial_state ''2024-05-01''"
  define b where "b = on_member_join a ''2024-05-02''"
  define c where "c = on_member_join b ''2024-05-01''"
  have state: "clock_back_state = on_member_join c ''2024-05-01''"
    by (simp add: clock_back_state_def a_def b_def c_def)
  have init: "date (daily_stats initial_state) = []" "daily_history initial_state = []"
    by (simp_all add: initial_state_def initial_daily_stats_def)
  have a: "date (daily_stats a) = ''2024-05-01''" "daily_history a = []"
    "new_members (daily_stats a) = 1"
    by (simp_all add: a_def on_member_join_def update_daily_stats_date
          update_daily_stats_history update_daily_stats_new_day init)
  have b: "date (daily_stats b) = ''2024-05-02''"
    "daily_history b = [(''2024-05-01'', frozen_summary (daily_stats a))]"
    "new_members (daily_stats b) = 1"
    by (simp_all add: b_def on_member_join_def update_daily_stats_date
          update_daily_stats_history update_daily_stats_new_day a)
  have c: "date (daily_stats c) = ''2024-05-01''"
    "daily_history c = [(''2024-05-01'', frozen_summary (daily_stats a)),
                        (''2024-05-02'', frozen_summary (daily_stats b))]"
    "new_members (daily_stats c) = 1"
    by (simp_all add: c_def on_member_join_def update_daily_stats_date
          update_daily_stats_history update_daily_stats_new_day b)
  show "map_option hist_new_members (map_of (daily_history clock_back_state) ''2024-05-01'')
          = Some 1"
    by (simp add: state on_member_join_def update_daily_stats_history c frozen_summary_def a)
  show "date (daily_stats clock_back_state) = ''2024-05-01''"
    by (simp add: state on_member_join_def update_daily_stats_date)
  show "new_members (daily_stats clock_back_state) = 2"
    using update_daily_stats_same_day(8) [of c "''2024-05-01''" None 0 0 0 False False True]
    by (simp add: state on_member_join_def c)
qed

text \<open>
  The claim as stated fails when the calendar date goes back. A member joins on May
  1 and another on May 2, which freezes May 1 with one new member; then the clock
  shows May 1 again and two more members join. The next rollover check on May 2
  replaces the frozen entry of May 1: its \<open>new_members\<close> goes from 1 to 2.
\<close>

theorem daily_rollover_idempotent_counterexample:
  "reachable clock_back_state
   \<and> map_option hist_new_members (map_of (daily_history clock_back_state) ''2024-05-01'')
       = Some 1
   \<and> map_option hist_new_members
        (map_of (daily_history
           (update_daily_stats clock_back_state ''2024-05-02'' None 0 0 0 False False False))
           ''2024-05-01'')
       = Some 2"
proof -
  have "daily_history (update_daily_stats clock_back_state ''2024-05-02'' None 0 0 0 False False False)
      = AList.update ''2024-05-01'' (frozen_summary (daily_stats clock_back_state))
          (daily_history clock_back_state)"
    by (simp add: update_daily_stats_history clock_back_state_history)
  then have "map_option hist_new_members
        (map_of (daily_history (update_daily_stats clock_back_state ''2024-05-02'' None 0 0 0 False False False))
           ''2024-05-01'') = Some 2"
    by (simp add: update_conv' frozen_summary_def clock_back_state_history)
  with clock_back_state_reachable clock_back_state_history(1) show ?thesis
    by simp
qed

section \<open>No negative totals\<close>

lemma calculate_message_xp_frame [simp]:
  "events_message (snd (calculate_message_xp s user_id today yesterday roll pick)) = events_message s"
  "user_xp (snd (calculate_message_xp s user_id today yesterday roll pick)) = user_xp s"
  "user_level (snd (calculate_message_xp s user_id today yesterday roll pick)) = user_level s"
  "user_prestige (snd (calculate_message_xp s user_id today yesterday roll pick)) = user_prestige s"
  "user_last_message (snd (calculate_message_xp s user_id today yesterday roll pick)) = user_last_message s"
  "user_achievements (snd (calculate_message_xp s user_id today yesterday roll pick)) = user_achievements s"
  "voice_start_times (snd (calculate_message_xp s user_id today yesterday roll pick)) = voice_start_times s"
  "user_message_count (snd (calculate_message_xp s user_id today yesterday roll pick)) = user_message_count s"
  "user_voice_time (snd (calculate_message_xp s user_id today yesterday roll pick)) = user_voice_time s"
  "total_server_messages (snd (calculate_message_xp s user_id today yesterday roll pick)) = total_server_messages s"
  "locked_channels (snd (calculate_message_xp s user_id today yesterday roll pick)) = locked_channels s"
  "daily_stats (snd (calculate_message_xp s user_id today yesterday roll pick)) = daily_stats s"
  "daily_history (snd (calculate_message_xp s user_id today yesterday roll pick)) = daily_history s"
  by (simp_all add: calculate_message_xp_def Let_def)

lemma add_xp_frame [simp]:
  "events_message (snd (add_xp s today user_id amount)) = events_message s"
  "user_last_message (snd (add_xp s today user_id amount)) = user_last_message s"
  "user_daily_streak (snd (add_xp s today user_id amount)) = user_daily_streak s"
  "user_last_daily (snd (add_xp s today user_id amount)) = user_last_daily s"
  "voice_start_times (snd (add_xp s today user_id amount)) = voice_start_times s"
  "user_message_count (snd (add_xp s today user_id amount)) = user_message_count s"
  "user_voice_time (snd (add_xp s today user_id amount)) = user_voice_time s"
  "total_server_messages (snd (add_xp s today user_id amount)) = total_server_messages s"
  "locked_channels (snd (add_xp s today user_id amount)) = locked_channels s"
  by (simp_all add: add_xp_def Let_def)

lemma dict_get_nonneg:
  "list_all (\<lambda>(u, x). 0 \<le> x) d \<Longrightarrow> (0::rat) \<le> dict_get d k 0"
proof (cases "map_of d k")
  case None
  then show ?thesis by (simp add: dict_get_def)
next
  case (Some v)
  assume "list_all (\<lambda>(u, x). 0 \<le> x) d"
  moreover from Some have "(k, v) \<in> set d" by (rule map_of_SomeD)
  ultimately have "0 \<le> v" by (auto simp add: list_all_iff)
  with Some show ?thesis by (simp add: dict_get_def)
qed

lemma add_xp_user_xp:
  "user_xp (snd (add_xp s today user_id amount)) =
     AList.update user_id
       (if snd (snd (fst (add_xp s today user_id amount))) then 0
        else dict_get (user_xp s) user_id 0 + amount)
       (user_xp s)"
proof (cases "calculate_level_from_xp (dict_get (user_xp s) user_id 0 + amount) \<ge> prestige_threshold
              \<and> dict_get (user_level s) user_id 0 < prestige_threshold")
  case True
  then have b: "prestige_threshold \<le> calculate_level_from_xp (dict_get (user_xp s) user_id 0 + amount)"
    "dict_get (user_level s) user_id 0 < prestige_threshold" by simp_all
  from add_xp_prestige_branch(1,2) [OF b, of today] show ?thesis by simp
next
  case False
  from add_xp_plain_branch(1,2) [OF False, of today] show ?thesis by simp
qed

lemma add_xp_nonneg:
  assumes "nonneg_totals s" "0 \<le> amount"
  shows "nonneg_totals (snd (add_xp s today user_id amount))"
proof -
  from assms(1) have xs: "list_all (\<lambda>(u, x). 0 \<le> x) (user_xp s)"
    and vs: "list_all (\<lambda>(u, v). 0 \<le> v) (user_voice_time s)"
    by (simp_all add: nonneg_totals_def)
  from dict_get_nonneg [OF xs, of user_id] assms(2)
  have "0 \<le> (if snd (snd (fst (add_xp s today user_id amount))) then 0
              else dict_get (user_xp s) user_id 0 + amount)"
    by simp
  with xs have "list_all (\<lambda>(u, x). 0 \<le> x) (user_xp (snd (add_xp s today user_id amount)))"
    unfolding add_xp_user_xp by (intro list_all_update) simp_all
  with vs show ?thesis
    by (simp add: nonneg_totals_def)
qed

lemma calculate_message_xp_positive:
  assumes "0 \<le> pick"
  shows "0 < fst (calculate_message_xp s user_id today yesterday roll pick)"
proof -
  have "(0::rat) \<le> of_int (if roll < bonus_xp_chance then pick else 0)"
    using assms by simp
  then show ?thesis
    by (auto simp add: calculate_message_xp_def Let_def base_message_xp_def
          daily_bonus_multiplier_def streak_bonus_multiplier_def split_beta
          intro: add_pos_nonneg)
qed

lemma message_xp_tracking_nonneg:
  assumes "nonneg_totals s" "0 \<le> pick"
  shows "nonneg_totals (message_xp_tracking s today yesterday current_time user_id roll pick)"
proof -
  define s2 where
    "s2 = (if \<not> dict_contains user_id (user_message_count s)
           then award_achievement (s\<lparr>total_server_messages := total_server_messages s + 1\<rparr>)
                  user_id ''first_message''
           else s\<lparr>total_server_messages := total_server_messages s + 1\<rparr>)"
  define xp_gained where
    "xp_gained = fst (calculate_message_xp s2 user_id today yesterday roll pick)"
  define s3 where "s3 = snd (calculate_message_xp s2 user_id today yesterday roll pick)"
  have "nonneg_totals s2"
    using assms(1) by (simp add: nonneg_totals_def s2_def)
  then have "nonneg_totals s3"
    by (simp add: nonneg_totals_def s3_def)
  moreover have "0 \<le> xp_gained"
    using calculate_message_xp_positive [OF assms(2), of s2 user_id today yesterday roll]
    by (simp add: xp_gained_def)
  ultimately have after: "nonneg_totals (snd (add_xp s3 today user_id xp_gained))"
    by (rule add_xp_nonneg)
  have "user_xp (message_xp_tracking s today yesterday current_time user_id roll pick) =
          (if current_time - dict_get (user_last_message s) user_id 0 \<ge> antispam_cooldown_sec
           then user_xp (snd (add_xp s3 today user_id xp_gained)) else user_xp s)"
    and "user_voice_time (message_xp_tracking s today yesterday current_time user_id roll pick) =
          user_voice_time s"
    by (simp_all add: message_xp_tracking_def Let_def split_beta s2_def s3_def xp_gained_def)
  with after assms(1) show ?thesis
    by (simp add: nonneg_totals_def)
qed

lemma on_message_nonneg:
  assumes "nonneg_totals s" "0 \<le> pick"
  shows "nonneg_totals (on_message s today yesterday current_time msg roll pick)"
  using assms by (simp add: on_message_def message_xp_tracking_nonneg)

lemma on_voice_state_update_short:
  assumes "(current_time - dict_get (voice_start_times s) user_id 0) / 60 < 1"
  shows "user_xp (on_voice_state_update s today current_time user_id before_channel after_channel)
           = user_xp s"
    and "user_voice_time
           (on_voice_state_update s today current_time user_id before_channel after_channel)
           = user_voice_time s"
  using assms by (simp_all add: on_voice_state_update_def Let_def)

lemma on_voice_state_update_nonneg:
  assumes "nonneg_totals s"
  shows "nonneg_totals
           (on_voice_state_update s today current_time user_id before_channel after_channel)"
proof (cases "(before_channel \<noteq> None \<and> after_channel = None)
              \<and> dict_contains user_id (voice_start_times s)
              \<and> (current_time - dict_get (voice_start_times s) user_id 0) / 60 \<ge> 1")
  case False
  then have "user_xp
        (on_voice_state_update s today current_time user_id before_channel after_channel)
        = user_xp s"
    and "user_voice_time
        (on_voice_state_update s today current_time user_id before_channel after_channel)
        = user_voice_time s"
    by (auto simp add: on_voice_state_update_def Let_def)
  with assms show ?thesis
    by (simp add: nonneg_totals_def)
next
  case True
  define minutes where "minutes = (current_time - dict_get (voice_start_times s) user_id 0) / 60"
  define s1 where
    "s1 = s\<lparr>voice_start_times := AList.delete user_id (voice_start_times s)\<rparr>"
  define s2 where "s2 = snd (add_xp s1 today user_id (minutes * voice_xp_per_minute))"
  from True have long: "1 \<le> minutes" by (simp add: minutes_def)
  have "nonneg_totals s1"
    using assms by (simp add: nonneg_totals_def s1_def)
  moreover have "0 \<le> minutes * voice_xp_per_minute"
    using long by (simp add: voice_xp_per_minute_def)
  ultimately have two: "nonneg_totals s2"
    unfolding s2_def by (rule add_xp_nonneg)
  have result: "user_xp
        (on_voice_state_update s today current_time user_id before_channel after_channel)
        = user_xp s2"
    "user_voice_time
        (on_voice_state_update s today current_time user_id before_channel after_channel)
        = AList.update user_id (dict_get (user_voice_time s2) user_id 0 + minutes)
            (user_voice_time s2)"
    using True
    by (simp_all add: on_voice_state_update_def Let_def split_beta s1_def s2_def minutes_def)
  from two have xs: "list_all (\<lambda>(u, x). 0 \<le> x) (user_xp s2)"
    and vs: "list_all (\<lambda>(u, v). 0 \<le> v) (user_voice_time s2)"
    by (simp_all add: nonneg_totals_def)
  from dict_get_nonneg [OF vs, of user_id] long
  have "0 \<le> dict_get (user_voice_time s2) user_id 0 + minutes" by simp
  with vs have "list_all (\<lambda>(u, v). 0 \<le> v)
      (AList.update user_id (dict_get (user_voice_time s2) user_id 0 + minutes)
         (user_voice_time s2))"
    by (intro list_all_update) simp_all
  with xs result show ?thesis
    by (simp add: nonneg_totals_def)
qed

text \<open>
  C9, as amended. \<open>add_xp\<close> neither rejects nor clamps an amount: it stores the old
  XP plus the amount, or 0 on prestige. Its callers never pass a non-positive amount:
  a voice session counts only from one minute on, and a shorter one (also one of zero
  or negative length) leaves XP and voice minutes untouched; a message earns a positive
  amount. So, from a state without negative XP or voice totals, \<open>add_xp\<close> with an
  amount \<open>\<ge> 0\<close>, \<open>on_voice_state_update\<close> and \<open>on_message\<close> (with a bonus draw
  \<open>\<ge> 0\<close>) produce no negative XP or voice total.
\<close>

theorem nonnegative_totals:
  "(nonneg_totals s \<and> 0 \<le> amount \<longrightarrow> nonneg_totals (snd (add_xp s today user_id amount)))
   \<and> user_xp (snd (add_xp s today user_id amount)) =
       AList.update user_id
         (if snd (snd (fst (add_xp s today user_id amount))) then 0
          else dict_get (user_xp s) user_id 0 + amount)
         (user_xp s)
   \<and> (nonneg_totals s \<longrightarrow>
        nonneg_totals
          (on_voice_state_update s today current_time user_id before_channel after_channel))
   \<and> ((current_time - dict_get (voice_start_times s) user_id 0) / 60 < 1 \<longrightarrow>
        user_xp (on_voice_state_update s today current_time user_id before_channel after_channel)
          = user_xp s
        \<and> user_voice_time
            (on_voice_state_update s today current_time user_id before_channel after_channel)
          = user_voice_time s)
   \<and> (nonneg_totals s \<and> 0 \<le> pick \<longrightarrow>
        nonneg_totals (on_message s today yesterday current_time msg roll pick)
        \<and> 0 < fst (calculate_message_xp s user_id today yesterday roll pick))"
  using add_xp_nonneg [of s amount today user_id]
    add_xp_user_xp [of s today user_id amount]
    on_voice_state_update_nonneg [of s today current_time user_id before_channel after_channel]
    on_voice_state_update_short [of current_time s user_id today before_channel after_channel]
    on_message_nonneg [of s pick today yesterday current_time msg roll]
    calculate_message_xp_positive [of pick s user_id today yesterday roll]
  by blast

text \<open>
  User 7 has 3 XP and joined a voice channel at time 100. An award of 4 XP, a leave
  after 30 seconds and a message each keep the totals non-negative, and the short
  session changes neither XP nor voice minutes.
\<close>

theorem nonnegative_totals_witness:
  "nonneg_totals voice_state \<and> (0::rat) \<le> 4 \<and> (0::int) \<le> 3
   \<and> ((130::rat) - dict_get (voice_start_times voice_state) 7 0) / 60 < 1
   \<and> nonneg_totals (snd (add_xp voice_state ''2024-05-01'' 7 4))
   \<and> nonneg_totals (on_voice_state_update voice_state ''2024-05-01'' 130 7 (Some 1) None)
   \<and> user_xp (on_voice_state_update voice_state ''2024-05-01'' 130 7 (Some 1) None) = [(7, 3)]
   \<and> user_voice_time (on_voice_state_update voice_state ''2024-05-01'' 130 7 (Some 1) None) = []
   \<and> nonneg_totals (on_message voice_state ''2024-05-01'' ''2024-04-30'' 130 guild_message (1 / 2) 3)"
proof -
  have ok: "nonneg_totals voice_state"
    by (simp add: nonneg_totals_def voice_state_def initial_state_def)
  have short: "((130::rat) - dict_get (voice_start_times voice_state) 7 0) / 60 < 1"
    by (simp add: voice_state_def dict_get_def)
  have fields: "user_xp voice_state = [(7, 3)]" "user_voice_time voice_state = []"
    by (simp_all add: voice_state_def initial_state_def)
  from nonnegative_totals
    [of voice_state 4 "''2024-05-01''" 7 130 "Some 1" None 3 "''2024-04-30''" guild_message
        "1 / 2"]
    ok short fields
  show ?thesis by simp
qed

text \<open>
  The claim as stated fails on \<open>add_xp\<close> itself: an amount of \<open>-5\<close> for a user with
  no XP is stored as it is, so the XP falls from 0 to \<open>-5\<close>.
\<close>

theorem nonnegative_totals_counterexample:
  "dict_get (user_xp initial_state) 7 0 = 0
   \<and> dict_get (user_xp (snd (add_xp initial_state ''2024-05-01'' 7 (- 5)))) 7 0 = - 5
   \<and> \<not> nonneg_totals (snd (add_xp initial_state ''2024-05-01'' 7 (- 5)))"
proof -
  have init: "dict_get (user_xp initial_state) 7 0 = 0"
    "dict_get (user_level initial_state) 7 0 = 0"
    by (simp_all add: initial_state_def dict_get_def)
  have empty: "user_xp initial_state = []"
    by (simp add: initial_state_def)
  have lvl: "calculate_level_from_xp (- 5) = 0"
    by (simp add: calculate_level_from_xp_def prestige_threshold_def level_search.simps
          Let_def base_xp_requirement_def xp_multiplier_def power_divide)
  have plain: "\<not> (calculate_level_from_xp (dict_get (user_xp initial_state) 7 0 + (- 5))
                    \<ge> prestige_threshold
                  \<and> dict_get (user_level initial_state) 7 0 < prestige_threshold)"
    by (simp add: init lvl prestige_threshold_def)
  have "user_xp (snd (add_xp initial_state ''2024-05-01'' 7 (- 5))) = [(7, - 5)]"
    using add_xp_plain_branch(2) [OF plain, of "''2024-05-01''"] by (simp add: empty dict_get_def)
  with init show ?thesis
    by (simp add: nonneg_totals_def dict_get_def)
qed

section \<open>Integer keys as strings\<close>

lemma digit_val_digit_char: "d < 10 \<Longrightarrow> digit_val (digit_char d) = Some d"
  by (simp add: digit_val_def digit_char_def Let_def)

lemma parse_nat_append:
  "parse_nat (xs @ ys) acc =
     (case parse_nat xs acc of None \<Rightarrow> None | Some a \<Rightarrow> parse_nat ys a)"
  by (induction xs arbitrary: acc) (auto split: option.splits)

lemma parse_nat_str_nat: "parse_nat (str_nat n) 0 = Some n"
proof (induction n rule: str_nat.induct)
  case (1 n)
  show ?case
  proof (cases "n < 10")
    case True
    then show ?thesis
      by (subst str_nat.simps) (simp add: digit_val_digit_char)
  next
    case False
    with "1.IH" have "parse_nat (str_nat (n div 10)) 0 = Some (n div 10)" by simp
    moreover have "digit_val (digit_char (n mod 10)) = Some (n mod 10)"
      by (rule digit_val_digit_char) simp
    ultimately show ?thesis
      using False by (subst str_nat.simps) (simp add: parse_nat_append)
  qed
qed

lemma str_nat_first:
  "\<exists>d cs. str_nat n = digit_char d # cs \<and> d < 10"
proof (induction n rule: str_nat.induct)
  case (1 n)
  show ?case
  proof (cases "n < 10")
    case True
    then show ?thesis
      by (subst str_nat.simps) auto
  next
    case False
    with "1.IH" obtain d cs where "str_nat (n div 10) = digit_char d # cs" "d < 10"
      by auto
    with False show ?thesis
      by (subst str_nat.simps) auto
  qed
qed

lemma digit_char_not_sign:
  "d < 10 \<Longrightarrow> digit_char d \<noteq> CHR ''-'' \<and> digit_char d \<noteq> CHR ''+''"
proof -
  assume "d < 10"
  then have "digit_val (digit_char d) = Some d" by (rule digit_val_digit_char)
  moreover have "digit_val CHR ''-'' = None" "digit_val CHR ''+'' = None"
    by (simp_all add: digit_val_def)
  ultimately show ?thesis by auto
qed

lemma int_of_str_str_int: "int_of_str (str_int k) = Some k"
proof (cases "k < 0")
  case True
  obtain d cs where "str_nat (nat (- k)) = digit_char d # cs"
    using str_nat_first by blast
  then have "str_nat (nat (- k)) \<noteq> []" by simp
  with True parse_nat_str_nat [of "nat (- k)"] show ?thesis
    by (simp add: int_of_str_def str_int_def)
next
  case False
  obtain d cs where first: "str_nat (nat k) = digit_char d # cs" "d < 10"
    using str_nat_first by blast
  from digit_char_not_sign [OF first(2)] first(1) parse_nat_str_nat [of "nat k"] False
  show ?thesis
    by (simp add: int_of_str_def str_int_def)
qed

lemma str_int_inj: "str_int a = str_int b \<Longrightarrow> a = b"
proof -
  assume "str_int a = str_int b"
  then have "int_of_str (str_int a) = int_of_str (str_int b)" by simp
  then show "a = b" by (simp add: int_of_str_str_int)
qed

section \<open>Saving and loading\<close>

lemma update_new_key:
  "k \<notin> fst ` set al \<Longrightarrow> AList.update k v al = al @ [(k, v)]"
  by (induction al) auto

lemma foldl_update_distinct:
  "distinct (map fst (acc @ items)) \<Longrightarrow>
     foldl (\<lambda>d (k, v). AList.update k v d) acc items = acc @ items"
proof (induction items arbitrary: acc)
  case Nil
  show ?case by simp
next
  case (Cons item items)
  obtain k v where item: "item = (k, v)" by (cases item)
  from Cons.prems have new: "k \<notin> fst ` set acc"
    by (auto simp add: item)
  from Cons.prems have "distinct (map fst ((acc @ [(k, v)]) @ items))"
    by (simp add: item)
  from Cons.IH [OF this] new show ?case
    by (simp add: item update_new_key)
qed

lemma dict_of_items_distinct:
  "distinct (map fst items) \<Longrightarrow> dict_of_items items = items"
  using foldl_update_distinct [of "[]" items] by (simp add: dict_of_items_def)

lemma foldl_update_keys_distinct:
  "distinct (map fst acc) \<Longrightarrow>
     distinct (map fst (foldl (\<lambda>d (k, v). AList.update k v d) acc items))"
proof (induction items arbitrary: acc)
  case Nil
  then show ?case by simp
next
  case (Cons item items)
  obtain k v where item: "item = (k, v)" by (cases item)
  from Cons.prems have "distinct (map fst (AList.update k v acc))"
    by (rule distinct_update)
  from Cons.IH [OF this] show ?case
    by (simp add: item)
qed

lemma dict_of_items_keys_distinct: "distinct (map fst (dict_of_items items))"
  using foldl_update_keys_distinct [of "[]" items] by (simp add: dict_of_items_def)

lemma encoded_keys_distinct:
  assumes "distinct (map fst d)"
  shows "distinct (map fst (map (\<lambda>(k, v). (str_int k, enc v)) d))"
proof -
  have "map fst (map (\<lambda>(k, v). (str_int k, enc v)) d) = map str_int (map fst d)"
    by (induction d) auto
  moreover have "inj_on str_int (set (map fst d))"
    by (rule inj_onI) (rule str_int_inj)
  then have "distinct (map str_int (map fst d))"
    using assms by (subst distinct_map) blast
  ultimately show ?thesis
    by (simp only:)
qed

lemma parse_items_encoded:
  assumes "\<And>v. dec (enc v) = Some v"
  shows "parse_items (map (\<lambda>(k, v). (str_int k, enc v)) d) dec = Some d"
  by (induction d) (auto simp add: int_of_str_str_int assms)

text \<open>
  A dictionary with integer keys, written by the comprehension of \<open>save_data\<close> and
  read by the comprehension of \<open>load_data\<close>, comes back as it was.
\<close>

lemma load_saved_items:
  assumes "distinct (map fst d)" and "\<And>v. dec (enc v) = Some v"
  shows "map_option dict_of_items
           (parse_items (dict_of_items (map (\<lambda>(k, v). (str_int k, enc v)) d)) dec) = Some d"
proof -
  have "dict_of_items (map (\<lambda>(k, v). (str_int k, enc v)) d)
          = map (\<lambda>(k, v). (str_int k, enc v)) d"
    by (rule dict_of_items_distinct) (rule encoded_keys_distinct [OF assms(1)])
  then show ?thesis
    by (simp add: parse_items_encoded [of dec enc, OF assms(2)]
          dict_of_items_distinct [OF assms(1)])
qed

lemma those_as_str: "those (map (as_str \<circ> JStr) xs) = Some xs"
  by (induction xs) auto

lemma those_as_int: "those (map (as_int \<circ> JInt) xs) = Some xs"
  by (induction xs) auto

lemma as_str_set_encoded: "as_str_set (JArr (map JStr (sorted_list_of_fset v))) = Some v"
  by (simp add: those_as_str)

lemma as_int_set_encoded: "as_int_set (JArr (map JInt (sorted_list_of_fset v))) = Some v"
  by (simp add: those_as_int)

lemma decode_encode_daily_stats: "decode_daily_stats (encode_daily_stats ds) = Some ds"
  by (simp add: decode_daily_stats_def encode_daily_stats_def get_field_def those_as_int)

lemma decode_encode_day_summary: "decode_day_summary (encode_day_summary h) = Some h"
  by (simp add: decode_day_summary_def encode_day_summary_def get_field_def)

lemma decode_encode_history:
  "decode_history (map (\<lambda>(d, h). (d, encode_day_summary h)) hist) = Some hist"
  by (induction hist) (auto simp add: decode_encode_day_summary)

lemma load_dict_saved:
  "distinct (map fst (user_xp s)) \<Longrightarrow>
     load_dict (save_data s) ''user_xp'' as_float = Some (user_xp s)"
  "distinct (map fst (user_level s)) \<Longrightarrow>
     load_dict (save_data s) ''user_level'' as_int = Some (user_level s)"
  "distinct (map fst (user_prestige s)) \<Longrightarrow>
     load_dict (save_data s) ''user_prestige'' as_int = Some (user_prestige s)"
  "distinct (map fst (user_daily_streak s)) \<Longrightarrow>
     load_dict (save_data s) ''user_daily_streak'' as_int = Some (user_daily_streak s)"
  "distinct (map fst (user_last_daily s)) \<Longrightarrow>
     load_dict (save_data s) ''user_last_daily'' as_str = Some (user_last_daily s)"
  "distinct (map fst (user_message_count s)) \<Longrightarrow>
     load_dict (save_data s) ''user_message_count'' as_int = Some (user_message_count s)"
  "distinct (map fst (user_voice_time s)) \<Longrightarrow>
     load_dict (save_data s) ''user_voice_time'' as_float = Some (user_voice_time s)"
  "distinct (map fst (user_achievements s)) \<Longrightarrow>
     load_dict (save_data s) ''user_achievements'' as_str_set = Some (user_achievements s)"
  by (simp_all add: load_dict_def load_value_def save_data_def dict_get_def load_saved_items
        those_as_str)

lemma load_value_saved:
  "load_value (save_data s) ''events_message'' (JStr ''No upcoming events.'') as_str
     = Some (events_message s)"
  "load_value (save_data s) ''total_server_messages'' (JInt 0) as_int
     = Some (total_server_messages s)"
  "load_daily_stats (save_data s) = Some (daily_stats s)"
  "load_value (save_data s) ''daily_history'' (JObj [])
     (\<lambda>j. case j of JObj items \<Rightarrow> decode_history items | _ \<Rightarrow> None)
     = Some (daily_history s)"
  by (simp_all add: load_value_def load_daily_stats_def save_data_def dict_get_def
        decode_encode_daily_stats decode_encode_history)

section \<open>The dictionaries of a reachable state\<close>

lemma award_achievement_keys:
  "distinct (map fst (user_achievements s)) \<Longrightarrow>
     distinct (map fst (user_achievements (award_achievement s user_id achievement_id)))"
  by (simp add: award_achievement_def Let_def distinct_update)

lemma check_achievements_keys:
  "distinct (map fst (user_achievements s)) \<Longrightarrow>
     distinct (map fst (user_achievements (check_achievements s user_id xp level)))"
  by (simp add: check_achievements_def Let_def award_achievement_keys)

lemma add_xp_keys:
  assumes "dict_keys_unique s"
  shows "dict_keys_unique (snd (add_xp s today user_id amount))"
proof -
  have ach: "distinct (map fst (user_achievements (snd (add_xp s today user_id amount))))"
    using assms
    by (simp add: add_xp_def Let_def dict_keys_unique_def award_achievement_keys
          check_achievements_keys)
  have rest: "distinct (map fst (user_xp (snd (add_xp s today user_id amount))))
       \<and> distinct (map fst (user_level (snd (add_xp s today user_id amount))))
       \<and> distinct (map fst (user_prestige (snd (add_xp s today user_id amount))))"
  proof (cases "calculate_level_from_xp (dict_get (user_xp s) user_id 0 + amount)
                  \<ge> prestige_threshold
                \<and> dict_get (user_level s) user_id 0 < prestige_threshold")
    case True
    then have b: "prestige_threshold
                    \<le> calculate_level_from_xp (dict_get (user_xp s) user_id 0 + amount)"
      "dict_get (user_level s) user_id 0 < prestige_threshold" by simp_all
    from add_xp_prestige_branch(2-4) [OF b, of today] assms show ?thesis
      by (simp add: dict_keys_unique_def distinct_update)
  next
    case False
    from add_xp_plain_branch(2-4) [OF False, of today] assms show ?thesis
      by (simp add: dict_keys_unique_def distinct_update)
  qed
  from ach rest assms show ?thesis
    by (simp add: dict_keys_unique_def)
qed

lemma calculate_message_xp_keys:
  assumes "dict_keys_unique s"
  shows "dict_keys_unique (snd (calculate_message_xp s user_id today yesterday roll pick))"
proof -
  have "distinct (map fst (user_last_daily
          (snd (calculate_message_xp s user_id today yesterday roll pick))))"
    and "distinct (map fst (user_daily_streak
          (snd (calculate_message_xp s user_id today yesterday roll pick))))"
    using assms
    by (simp_all add: calculate_message_xp_def Let_def dict_keys_unique_def distinct_update)
  with assms show ?thesis
    by (simp add: dict_keys_unique_def)
qed

lemma dict_keys_unique_award:
  "dict_keys_unique s \<Longrightarrow> dict_keys_unique (award_achievement s user_id achievement_id)"
  by (simp add: dict_keys_unique_def award_achievement_keys)

lemma dict_keys_unique_stats:
  "dict_keys_unique s \<Longrightarrow>
     dict_keys_unique (update_daily_stats s today u m x v l p n)"
  by (simp add: dict_keys_unique_def)

lemma message_xp_tracking_keys:
  assumes "dict_keys_unique s"
  shows "dict_keys_unique (message_xp_tracking s today yesterday current_time user_id roll pick)"
proof -
  define s2 where
    "s2 = (if \<not> dict_contains user_id (user_message_count s)
           then award_achievement (s\<lparr>total_server_messages := total_server_messages s + 1\<rparr>)
                  user_id ''first_message''
           else s\<lparr>total_server_messages := total_server_messages s + 1\<rparr>)"
  define xp_gained where
    "xp_gained = fst (calculate_message_xp s2 user_id today yesterday roll pick)"
  define s3 where "s3 = snd (calculate_message_xp s2 user_id today yesterday roll pick)"
  define s4 where "s4 = snd (add_xp s3 today user_id xp_gained)"
  define s7 where
    "s7 = update_daily_stats
            (s4\<lparr>user_message_count :=
                  AList.update user_id (dict_get (user_message_count s4) user_id 0 + 1)
                    (user_message_count s4),
                user_last_message :=
                  AList.update user_id current_time (user_last_message s4)\<rparr>)
            today (Some user_id) 1 xp_gained 0 False False False"
  have "dict_keys_unique (s\<lparr>total_server_messages := total_server_messages s + 1\<rparr>)"
    using assms by (simp add: dict_keys_unique_def)
  then have two: "dict_keys_unique s2"
    by (simp add: s2_def dict_keys_unique_award)
  then have "dict_keys_unique s3"
    unfolding s3_def by (rule calculate_message_xp_keys)
  then have "dict_keys_unique s4"
    unfolding s4_def by (rule add_xp_keys)
  then have "dict_keys_unique
      (s4\<lparr>user_message_count :=
            AList.update user_id (dict_get (user_message_count s4) user_id 0 + 1)
              (user_message_count s4),
          user_last_message := AList.update user_id current_time (user_last_message s4)\<rparr>)"
    by (simp add: dict_keys_unique_def distinct_update)
  then have seven: "dict_keys_unique s7"
    unfolding s7_def by (rule dict_keys_unique_stats)
  have "message_xp_tracking s today yesterday current_time user_id roll pick =
          (if current_time - dict_get (user_last_message s) user_id 0 \<ge> antispam_cooldown_sec
           then (if \<not> snd (snd (fst (add_xp s3 today user_id xp_gained)))
                     \<and> get_user_rank s7 user_id \<le> 3
                     \<and> ''top_3'' |\<notin>| dict_get (user_achievements s7) user_id {||}
                 then award_achievement s7 user_id ''top_3'' else s7)
           else s2)"
    by (simp add: message_xp_tracking_def Let_def split_beta s2_def s3_def s4_def s7_def xp_gained_def)
  with two seven show ?thesis
    by (simp add: dict_keys_unique_award)
qed

lemma on_message_keys:
  assumes "dict_keys_unique s"
  shows "dict_keys_unique (on_message s today yesterday current_time msg roll pick)"
  using assms by (simp add: on_message_def message_xp_tracking_keys)

lemma on_voice_state_update_keys:
  assumes "dict_keys_unique s"
  shows "dict_keys_unique
           (on_voice_state_update s today current_time user_id before_channel after_channel)"
proof -
  define minutes where "minutes = (current_time - dict_get (voice_start_times s) user_id 0) / 60"
  define s1 where
    "s1 = s\<lparr>voice_start_times := AList.delete user_id (voice_start_times s)\<rparr>"
  define s2 where "s2 = snd (add_xp s1 today user_id (minutes * voice_xp_per_minute))"
  have one: "dict_keys_unique s1"
    using assms by (simp add: dict_keys_unique_def s1_def)
  then have "dict_keys_unique s2"
    unfolding s2_def by (rule add_xp_keys)
  then have "dict_keys_unique
      (update_daily_stats
         (s2\<lparr>user_voice_time :=
               AList.update user_id (dict_get (user_voice_time s2) user_id 0 + minutes)
                 (user_voice_time s2)\<rparr>)
         today (Some user_id) 0 (minutes * voice_xp_per_minute) minutes False False False)"
    by (simp add: dict_keys_unique_def distinct_update)
  moreover have "dict_keys_unique
      (s\<lparr>voice_start_times := AList.update user_id current_time (voice_start_times s)\<rparr>)"
    using assms by (simp add: dict_keys_unique_def)
  ultimately show ?thesis
    using assms one
    by (simp add: on_voice_state_update_def Let_def split_beta s1_def s2_def minutes_def)
qed

lemma run_steps_invariant:
  assumes "\<And>step t t'. step \<in> set steps \<Longrightarrow> P t \<Longrightarrow> step t = Some t' \<Longrightarrow> P t'"
    and "P s"
  shows "P (run_steps steps s)"
  using assms
proof (induction steps arbitrary: s)
  case Nil
  then show ?case by simp
next
  case (Cons step steps)
  show ?case
  proof (cases "step s")
    case None
    with Cons.prems(2) show ?thesis by simp
  next
    case (Some s')
    have "P s'"
      using Cons.prems(1) [of step s s'] Cons.prems(2) Some by simp
    moreover have "P t'" if "st \<in> set steps" "P t" "st t = Some t'" for st t t'
      using Cons.prems(1) [of st t t'] that by simp
    ultimately have "P (run_steps steps s')"
      by (intro Cons.IH)
    with Some show ?thesis by simp
  qed
qed

lemma load_dict_keys:
  "load_dict data key dec = Some d \<Longrightarrow> distinct (map fst d)"
  by (auto simp add: load_dict_def load_value_def dict_of_items_keys_distinct
        split: json.splits)

lemma load_data_keys:
  assumes "dict_keys_unique s"
  shows "dict_keys_unique (load_data s today snap)"
proof (cases snap)
  case NoFile
  with assms show ?thesis
    by (simp add: load_data_def dict_keys_unique_def)
next
  case Corrupt
  with assms show ?thesis
    by (simp add: load_data_def)
next
  case (Parsed data)
  show ?thesis
    unfolding load_data_def Parsed snapshot.case
    by (rule run_steps_invariant [where P = dict_keys_unique, OF _ assms])
       (auto simp add: dict_keys_unique_def dest: load_dict_keys)
qed

lemma reachable_dict_keys_unique: "reachable s \<Longrightarrow> dict_keys_unique s"
proof (induction rule: reachable.induct)
  case initial
  show ?case by (simp add: dict_keys_unique_def initial_state_def)
next
  case (loaded s today snap)
  then show ?case by (simp add: load_data_keys)
next
  case (message s today yesterday current_time msg roll pick)
  then show ?case by (simp add: on_message_keys)
next
  case (voice s today current_time user_id before_channel after_channel)
  then show ?case by (simp add: on_voice_state_update_keys)
next
  case (joined s today)
  then show ?case by (simp add: on_member_join_def dict_keys_unique_stats)
next
  case (events s event_message)
  then show ?case by (simp add: setevents_def dict_keys_unique_def)
next
  case (locked s channel_id)
  then show ?case by (simp add: lock_def dict_keys_unique_def)
next
  case (unlocked s channel_id)
  then show ?case by (simp add: unlock_def dict_keys_unique_def)
qed

lemma on_message_events_message:
  "events_message (on_message s today yesterday current_time msg roll pick)
     = events_message s"
  by (simp add: on_message_def message_xp_tracking_def Let_def split_beta)

text \<open>
  C8. For every reachable state, \<open>save_data\<close> followed by \<open>load_data\<close> into a fresh
  state (any state, so the initial one too) gives back every persisted field: each
  user's XP, level, prestige, streak, last daily date, message count, voice time and
  achievement set, the events text, the message counter, the daily statistics with the
  set of active users, and the daily history. Hence the leaderboard scores are the same.
  The active users are written as a list that holds each of them once.
\<close>

theorem save_load_round_trip:
  assumes "reachable s"
  shows "user_xp (load_data fresh today (Parsed (save_data s))) = user_xp s
   \<and> user_level (load_data fresh today (Parsed (save_data s))) = user_level s
   \<and> user_prestige (load_data fresh today (Parsed (save_data s))) = user_prestige s
   \<and> user_daily_streak (load_data fresh today (Parsed (save_data s))) = user_daily_streak s
   \<and> user_last_daily (load_data fresh today (Parsed (save_data s))) = user_last_daily s
   \<and> user_message_count (load_data fresh today (Parsed (save_data s))) = user_message_count s
   \<and> user_voice_time (load_data fresh today (Parsed (save_data s))) = user_voice_time s
   \<and> user_achievements (load_data fresh today (Parsed (save_data s))) = user_achievements s
   \<and> events_message (load_data fresh today (Parsed (save_data s))) = events_message s
   \<and> total_server_messages (load_data fresh today (Parsed (save_data s))) = total_server_messages s
   \<and> daily_stats (load_data fresh today (Parsed (save_data s))) = daily_stats s
   \<and> daily_history (load_data fresh today (Parsed (save_data s))) = daily_history s
   \<and> (\<forall>u. get_leaderboard_score (load_data fresh today (Parsed (save_data s))) u = get_leaderboard_score s u)
   \<and> load_value (save_data s) ''daily_stats'' JNull
        (\<lambda>j. load_value j ''active_users'' JNull Some)
       = Some (JArr (map JInt (sorted_list_of_fset (active_users (daily_stats s)))))
   \<and> distinct (sorted_list_of_fset (active_users (daily_stats s)))"
proof -
  from assms have "dict_keys_unique s"
    by (rule reachable_dict_keys_unique)
  then have loaded: "load_data fresh today (Parsed (save_data s)) =
      fresh\<lparr>user_xp := user_xp s, user_level := user_level s,
            user_prestige := user_prestige s, user_daily_streak := user_daily_streak s,
            user_last_daily := user_last_daily s,
            user_message_count := user_message_count s,
            user_voice_time := user_voice_time s,
            user_achievements := user_achievements s,
            events_message := events_message s,
            total_server_messages := total_server_messages s,
            daily_stats := daily_stats s, daily_history := daily_history s\<rparr>"
    by (simp add: load_data_def dict_keys_unique_def load_dict_saved load_value_saved)
  have written: "load_value (save_data s) ''daily_stats'' JNull
        (\<lambda>j. load_value j ''active_users'' JNull Some)
       = Some (JArr (map JInt (sorted_list_of_fset (active_users (daily_stats s)))))"
    by (simp add: load_value_def save_data_def encode_daily_stats_def dict_get_def)
  have once: "distinct (sorted_list_of_fset (active_users (daily_stats s)))"
    by (simp add: sorted_list_of_fset.rep_eq)
  show ?thesis
    unfolding loaded using written once
    by (simp add: get_leaderboard_score_def)
qed

text \<open>
  The state after the events text was set and user 7 wrote a first guild message, saved and
  loaded into the initial state.
\<close>

theorem save_load_round_trip_witness:
  "reachable (on_message (setevents initial_state ''Game night'') ''2024-05-01'' ''2024-04-30'' 1000 guild_message (1 / 2) 3)
   \<and> events_message (load_data initial_state ''2024-05-02'' (Parsed (save_data (on_message (setevents initial_state ''Game night'') ''2024-05-01'' ''2024-04-30'' 1000 guild_message (1 / 2) 3)))) = ''Game night''
   \<and> user_xp (load_data initial_state ''2024-05-02'' (Parsed (save_data (on_message (setevents initial_state ''Game night'') ''2024-05-01'' ''2024-04-30'' 1000 guild_message (1 / 2) 3))))
       = user_xp (on_message (setevents initial_state ''Game night'') ''2024-05-01'' ''2024-04-30'' 1000 guild_message (1 / 2) 3)
   \<and> user_achievements (load_data initial_state ''2024-05-02'' (Parsed (save_data (on_message (setevents initial_state ''Game night'') ''2024-05-01'' ''2024-04-30'' 1000 guild_message (1 / 2) 3))))
       = user_achievements (on_message (setevents initial_state ''Game night'') ''2024-05-01'' ''2024-04-30'' 1000 guild_message (1 / 2) 3)
   \<and> daily_stats (load_data initial_state ''2024-05-02'' (Parsed (save_data (on_message (setevents initial_state ''Game night'') ''2024-05-01'' ''2024-04-30'' 1000 guild_message (1 / 2) 3))))
       = daily_stats (on_message (setevents initial_state ''Game night'') ''2024-05-01'' ''2024-04-30'' 1000 guild_message (1 / 2) 3)
   \<and> daily_history (load_data initial_state ''2024-05-02'' (Parsed (save_data (on_message (setevents initial_state ''Game night'') ''2024-05-01'' ''2024-04-30'' 1000 guild_message (1 / 2) 3))))
       = daily_history (on_message (setevents initial_state ''Game night'') ''2024-05-01'' ''2024-04-30'' 1000 guild_message (1 / 2) 3)"
proof -
  have r: "reachable (on_message (setevents initial_state ''Game night'') ''2024-05-01'' ''2024-04-30'' 1000 guild_message (1 / 2) 3)"
    by (intro reachable.message reachable.events reachable.initial)
  have shown: "events_message (on_message (setevents initial_state ''Game night'') ''2024-05-01'' ''2024-04-30'' 1000 guild_message (1 / 2) 3) = ''Game night''"
    by (simp add: on_message_events_message setevents_def)
  from save_load_round_trip [OF r, of initial_state "''2024-05-02''"] r shown
  show ?thesis by simp
qed

end
